theory Spec2Isabelle
  imports Main "HOL-Library.Sublist"
begin

section \<open>The Volkern MCP server: tool registry and dispatch (src/index.ts)\<close>

text \<open>
  The server exposes twenty CRM tools.  A tool call \<open>{name, arguments}\<close> is turned by
  \<open>handleToolCall\<close> into one call of \<open>volkernRequest\<close>, which performs one \<open>fetch\<close>
  against the remote API; the request handler wraps the outcome into a result envelope.

  Modelling decisions:
  \<^item> a string is the list of its bytes (UTF-8);
  \<^item> a JSON value is a datatype; a JSON object is the list of its own properties in
    enumeration order (keys are distinct in a real object; the model reads the first
    binding of a key and removes all of them);
  \<^item> a JSON number is represented by the text that ECMAScript's \<open>Number::toString\<close> gives
    for it: \<open>2\<close> is \<open>''2''\<close>, \<open>1.5\<close> is \<open>''1.5''\<close>, \<open>1e21\<close> is \<open>''1e+21''\<close>, and both zeros are
    \<open>''0''\<close>.  The program observes a number only through \<open>String\<close>, a template literal,
    \<open>JSON.stringify\<close> and a truth test, and all four are functions of that text;
  \<^item> \<open>undefined\<close>, the value of a missing property, is \<open>None\<close>;
  \<^item> the arguments of a tool call are an object or \<open>undefined\<close> (the handler only casts
    \<open>request.params.arguments\<close>, which the protocol lets the caller leave out);
  \<^item> what is thrown is an \<open>Error\<close> instance: the two \<open>new Error\<close> of the source, the
    \<open>TypeError\<close> of the language, and the errors with which \<open>fetch\<close> and \<open>response.json()\<close>
    reject.  A function that may throw returns \<open>thrown + 'a\<close>.  The message text of a
    \<open>TypeError\<close> of the language is the engine's and is a parameter of the handler;
  \<^item> the remote service is a parameter: a function from the calls of \<open>fetch\<close> made so
    far and the present request to the outcome of \<open>fetch\<close>; every call of \<open>fetch\<close> is
    appended to a log, which is passed through the functions that perform it.
\<close>

subsection \<open>JSON values\<close>

datatype json =
    JNull
  | JBool bool
  | JNum string
  | JString string
  | JArray "json list"
  | JObject "(string \<times> json) list"

type_synonym obj = "(string \<times> json) list"

text \<open>The own property \<open>key\<close> of an object: \<open>None\<close> is \<open>undefined\<close>.\<close>

definition get_prop :: "obj \<Rightarrow> string \<Rightarrow> json option" where
  "get_prop args key = map_of args key"

text \<open>Rest destructuring \<open>const { key, ...data } = args\<close>: a new object holding the other
  properties, in their order.\<close>

definition rest_without :: "string \<Rightarrow> obj \<Rightarrow> obj" where
  "rest_without key args = filter (\<lambda>kv. fst kv \<noteq> key) args"

subsection \<open>What is thrown\<close>

text \<open>The \<open>TypeError\<close>s of the language that the code can meet: an object that cannot be
  converted to a string, a property read on \<open>undefined\<close>, a destructuring of \<open>undefined\<close>.\<close>

datatype type_error =
    CannotConvert
  | ReadOfUndefined string
  | DestructureOfUndefined string

text \<open>What is thrown is an \<open>Error\<close> instance: \<open>Error m\<close> is one that carries the message
  \<open>m\<close> (the \<open>new Error\<close> of the source, and what \<open>fetch\<close> and \<open>response.json()\<close> reject
  with), \<open>TypeError t\<close> is a \<open>TypeError\<close> of the language, whose message text the engine
  gives.\<close>

datatype thrown = Error string | TypeError type_error

text \<open>Sequencing: a throw ends the evaluation.\<close>

definition and_then :: "thrown + 'a \<Rightarrow> ('a \<Rightarrow> thrown + 'b) \<Rightarrow> thrown + 'b" where
  "and_then x f = (case x of Inl e \<Rightarrow> Inl e | Inr v \<Rightarrow> f v)"

text \<open>The elements of a list evaluated from left to right, up to the first throw.\<close>

fun collect :: "(thrown + 'a) list \<Rightarrow> thrown + 'a list" where
  "collect [] = Inr []"
| "collect (x # xs) =
     (case x of
        Inl e \<Rightarrow> Inl e
      | Inr y \<Rightarrow> (case collect xs of Inl e \<Rightarrow> Inl e | Inr ys \<Rightarrow> Inr (y # ys)))"

subsection \<open>Numbers and strings of the language\<close>

text \<open>The decimal digits of a natural number, as a template literal prints an HTTP
  status (an integer of three digits).\<close>

function show_nat :: "nat \<Rightarrow> string" where
  "show_nat n =
     (if n < 10 then [''0123456789'' ! n]
      else show_nat (n div 10) @ [''0123456789'' ! (n mod 10)])"
  by pat_completeness auto
termination
  by (relation "measure id") auto

declare show_nat.simps [simp del]

text \<open>\<open>Array.prototype.join\<close> on strings.\<close>

fun join :: "string \<Rightarrow> string list \<Rightarrow> string" where
  "join sep [] = []"
| "join sep [x] = x"
| "join sep (x # y # ys) = x @ sep @ join sep (y # ys)"

text \<open>ToBoolean, the test of \<open>if (args.key)\<close>: \<open>undefined\<close>, \<open>null\<close>, \<open>false\<close>, zero and the
  empty string are falsy, every array and object is truthy.\<close>

fun truthy :: "json option \<Rightarrow> bool" where
  "truthy None = False"
| "truthy (Some JNull) = False"
| "truthy (Some (JBool b)) = b"
| "truthy (Some (JNum n)) = (n \<noteq> ''0'')"
| "truthy (Some (JString s)) = (s \<noteq> [])"
| "truthy (Some (JArray xs)) = True"
| "truthy (Some (JObject kvs)) = True"

text \<open>ToString on a JSON value, as \<open>String(v)\<close> and a template literal compute it.  An
  object is converted by its \<open>toString\<close> method: an object with an own property \<open>toString\<close>
  (a JSON value, so not callable) has none that works, and its \<open>valueOf\<close> gives no primitive,
  so the conversion throws a \<open>TypeError\<close>; any other object inherits the method that gives
  \<open>[object Object]\<close>.  An array is the comma-joined list of its elements, converted from left
  to right, where \<open>null\<close> is the empty string.\<close>

fun toString :: "json \<Rightarrow> thrown + string" where
  "toString JNull = Inr ''null''"
| "toString (JBool b) = Inr (if b then ''true'' else ''false'')"
| "toString (JNum n) = Inr n"
| "toString (JString s) = Inr s"
| "toString (JArray xs) =
     (case collect (map (\<lambda>x. if x = JNull then Inr [] else toString x) xs) of
        Inl e \<Rightarrow> Inl e
      | Inr strs \<Rightarrow> Inr (join '','' strs))"
| "toString (JObject kvs) =
     (if get_prop kvs ''toString'' \<noteq> None then Inl (TypeError CannotConvert)
      else Inr ''[object Object]'')"

text \<open>\<open>String(v)\<close> and \<open>${v}\<close> for a value that may be \<open>undefined\<close>.\<close>

definition js_String :: "json option \<Rightarrow> thrown + string" where
  "js_String v = (case v of None \<Rightarrow> Inr ''undefined'' | Some x \<Rightarrow> toString x)"

subsection \<open>JSON.stringify\<close>

definition hex_lower :: "nat \<Rightarrow> char" where
  "hex_lower n = ''0123456789abcdef'' ! (n mod 16)"

definition hex_upper :: "nat \<Rightarrow> char" where
  "hex_upper n = ''0123456789ABCDEF'' ! (n mod 16)"

text \<open>QuoteJSONString, one character at a time.\<close>

definition quote_char :: "char \<Rightarrow> string" where
  "quote_char c =
     (if c = CHR 0x08 then [CHR 0x5C, CHR ''b'']
      else if c = CHR 0x09 then [CHR 0x5C, CHR ''t'']
      else if c = CHR 0x0A then [CHR 0x5C, CHR ''n'']
      else if c = CHR 0x0C then [CHR 0x5C, CHR ''f'']
      else if c = CHR 0x0D then [CHR 0x5C, CHR ''r'']
      else if c = CHR 0x22 then [CHR 0x5C, CHR 0x22]
      else if c = CHR 0x5C then [CHR 0x5C, CHR 0x5C]
      else if (of_char c :: nat) < 32
        then [CHR 0x5C] @ ''u00'' @ [hex_lower (of_char c div 16), hex_lower (of_char c)]
      else [c])"

definition quote :: "string \<Rightarrow> string" where
  "quote s = [CHR 0x22] @ concat (map quote_char s) @ [CHR 0x22]"

text \<open>SerializeJSONProperty with the gap \<open>gap\<close> (empty for \<open>JSON.stringify(v)\<close>, two spaces
  for \<open>JSON.stringify(v, null, 2)\<close>) at the indentation \<open>indent\<close>.  No value of the datatype
  has a callable \<open>toJSON\<close>, so nothing is thrown.\<close>

fun serialize :: "string \<Rightarrow> string \<Rightarrow> json \<Rightarrow> string" where
  "serialize gap indent JNull = ''null''"
| "serialize gap indent (JBool b) = (if b then ''true'' else ''false'')"
| "serialize gap indent (JNum n) = n"
| "serialize gap indent (JString s) = quote s"
| "serialize gap indent (JArray xs) =
     (let stepback = indent; indent = indent @ gap;
          partial = map (\<lambda>x. serialize gap indent x) xs
      in if partial = [] then ''[]''
         else if gap = [] then ''['' @ join '','' partial @ '']''
         else ''['' @ [CHR 0x0A] @ indent @ join ('','' @ [CHR 0x0A] @ indent) partial
              @ [CHR 0x0A] @ stepback @ '']'')"
| "serialize gap indent (JObject kvs) =
     (let stepback = indent; indent = indent @ gap;
          partial = map (\<lambda>kv. quote (fst kv) @ '':'' @ (if gap = [] then [] else '' '')
                                 @ serialize gap indent (snd kv)) kvs
      in if partial = [] then ''{}''
         else if gap = [] then ''{'' @ join '','' partial @ ''}''
         else ''{'' @ [CHR 0x0A] @ indent @ join ('','' @ [CHR 0x0A] @ indent) partial
              @ [CHR 0x0A] @ stepback @ ''}'')"

definition JSON_stringify :: "json \<Rightarrow> string" where
  "JSON_stringify v = serialize [] [] v"

definition JSON_stringify2 :: "json \<Rightarrow> string" where
  "JSON_stringify2 v = serialize ''  '' [] v"

subsection \<open>URLSearchParams\<close>

text \<open>The \<open>application/x-www-form-urlencoded\<close> byte serializer: a space becomes \<open>+\<close>,
  the letters, digits and \<open>* - . _\<close> stay, every other byte is percent-encoded.\<close>

definition urlencode_byte :: "char \<Rightarrow> string" where
  "urlencode_byte c =
     (if c = CHR '' '' then ''+''
      else if c \<in> set ''*-._0123456789ABCDEFGHIJKLMNOPQRSTUVWXYZabcdefghijklmnopqrstuvwxyz''
        then [c]
      else [CHR ''%'', hex_upper (of_char c div 16), hex_upper (of_char c)])"

definition urlencode :: "string \<Rightarrow> string" where
  "urlencode s = concat (map urlencode_byte s)"

type_synonym params = "(string \<times> string) list"

definition params_append :: "params \<Rightarrow> string \<Rightarrow> string \<Rightarrow> params" where
  "params_append ps key v = ps @ [(key, v)]"

definition params_toString :: "params \<Rightarrow> string" where
  "params_toString ps = join ''&'' (map (\<lambda>kv. urlencode (fst kv) @ ''='' @ urlencode (snd kv)) ps)"

text \<open>The property read \<open>args.key\<close>, where \<open>args\<close> may be \<open>undefined\<close>.\<close>

definition read_prop :: "obj option \<Rightarrow> string \<Rightarrow> thrown + json option" where
  "read_prop args key =
     (case args of
        None \<Rightarrow> Inl (TypeError (ReadOfUndefined key))
      | Some a \<Rightarrow> Inr (get_prop a key))"

text \<open>\<open>if (args.key) params.append("key", String(args.key));\<close>\<close>

definition append_if_truthy :: "obj option \<Rightarrow> string \<Rightarrow> params \<Rightarrow> thrown + params" where
  "append_if_truthy args key ps =
     and_then (read_prop args key) (\<lambda>v.
       if truthy v then and_then (js_String v) (\<lambda>s. Inr (params_append ps key s))
       else Inr ps)"

text \<open>\<open>if (args.key !== undefined) params.append("key", String(args.key));\<close>\<close>

definition append_if_defined :: "obj option \<Rightarrow> string \<Rightarrow> params \<Rightarrow> thrown + params" where
  "append_if_defined args key ps =
     and_then (read_prop args key) (\<lambda>v.
       if v \<noteq> None then and_then (js_String v) (\<lambda>s. Inr (params_append ps key s))
       else Inr ps)"

subsection \<open>The tool registry\<close>

datatype schema_type =
    SString
  | SEnum "string list"
  | SNumber
  | SBoolean
  | SArrayOfString
  | SObject

text \<open>A tool descriptor: its name, the names and types of its properties and the names its
  schema marks required (the descriptions are documentation and are left out).\<close>

record tool =
  tool_name :: string
  properties :: "(string \<times> schema_type) list"
  required :: "string list"

definition canales :: "string list" where
  "canales = [''web'', ''referido'', ''whatsapp'', ''telefono'', ''email'', ''otro'']"

definition estados_lead :: "string list" where
  "estados_lead = [''nuevo'', ''contactado'', ''calificado'', ''negociacion'', ''cliente'', ''perdido'']"

definition tipos_cita :: "string list" where
  "tipos_cita = [''reunion'', ''servicio'', ''llamada'', ''otro'']"

definition tools :: "tool list" where
  "tools =
   [\<lparr>tool_name = ''volkern_list_leads'',
     properties = [(''estado'', SEnum estados_lead), (''canal'', SEnum canales),
                   (''search'', SString), (''page'', SNumber), (''limit'', SNumber)],
     required = []\<rparr>,
    \<lparr>tool_name = ''volkern_get_lead'',
     properties = [(''leadId'', SString)],
     required = [''leadId'']\<rparr>,
    \<lparr>tool_name = ''volkern_create_lead'',
     properties = [(''nombre'', SString), (''email'', SString), (''telefono'', SString),
                   (''empresa'', SString), (''canal'', SEnum canales),
                   (''estado'', SEnum estados_lead), (''etiquetas'', SArrayOfString),
                   (''notas'', SString), (''contextoProyecto'', SString)],
     required = [''nombre'']\<rparr>,
    \<lparr>tool_name = ''volkern_update_lead'',
     properties = [(''leadId'', SString), (''nombre'', SString), (''email'', SString),
                   (''telefono'', SString), (''empresa'', SString), (''canal'', SString),
                   (''estado'', SString), (''etiquetas'', SArrayOfString), (''notas'', SString)],
     required = [''leadId'']\<rparr>,
    \<lparr>tool_name = ''volkern_check_disponibilidad'',
     properties = [(''fecha'', SString), (''duracion'', SNumber)],
     required = [''fecha'']\<rparr>,
    \<lparr>tool_name = ''volkern_list_citas'',
     properties = [(''estado'', SEnum [''Pendiente'', ''Confirmada'', ''Completada'',
                                       ''Cancelada'', ''Pagada'']),
                   (''tipo'', SEnum tipos_cita), (''fecha'', SString),
                   (''fechaInicio'', SString), (''fechaFin'', SString)],
     required = []\<rparr>,
    \<lparr>tool_name = ''volkern_create_cita'',
     properties = [(''leadId'', SString), (''fechaHora'', SString), (''tipo'', SEnum tipos_cita),
                   (''titulo'', SString), (''descripcion'', SString), (''duracion'', SNumber),
                   (''servicioId'', SString)],
     required = [''leadId'', ''fechaHora'']\<rparr>,
    \<lparr>tool_name = ''volkern_update_cita'',
     properties = [(''citaId'', SString), (''fechaHora'', SString),
                   (''estado'', SEnum [''Pendiente'', ''Confirmada'', ''Completada'',
                                       ''Cancelada'']),
                   (''descripcion'', SString), (''duracion'', SNumber)],
     required = [''citaId'']\<rparr>,
    \<lparr>tool_name = ''volkern_cita_accion'',
     properties = [(''citaId'', SString),
                   (''accion'', SEnum [''confirmar'', ''cancelar'', ''reprogramar'']),
                   (''nuevaFecha'', SString), (''motivo'', SString)],
     required = [''citaId'', ''accion'']\<rparr>,
    \<lparr>tool_name = ''volkern_list_servicios'',
     properties = [(''activo'', SBoolean)],
     required = []\<rparr>,
    \<lparr>tool_name = ''volkern_get_servicio'',
     properties = [(''servicioId'', SString)],
     required = [''servicioId'']\<rparr>,
    \<lparr>tool_name = ''volkern_create_task'',
     properties = [(''leadId'', SString),
                   (''tipo'', SEnum [''llamada'', ''email'', ''reunion'', ''recordatorio'']),
                   (''titulo'', SString), (''descripcion'', SString),
                   (''fechaVencimiento'', SString), (''asignadoA'', SString)],
     required = [''leadId'', ''tipo'', ''titulo'', ''fechaVencimiento'']\<rparr>,
    \<lparr>tool_name = ''volkern_list_tasks'',
     properties = [(''leadId'', SString)],
     required = [''leadId'']\<rparr>,
    \<lparr>tool_name = ''volkern_complete_task'',
     properties = [(''taskId'', SString)],
     required = [''taskId'']\<rparr>,
    \<lparr>tool_name = ''volkern_send_whatsapp'',
     properties = [(''leadId'', SString), (''mensaje'', SString),
                   (''tipo'', SEnum [''texto'', ''imagen'', ''documento''])],
     required = [''leadId'', ''mensaje'']\<rparr>,
    \<lparr>tool_name = ''volkern_list_conversaciones'',
     properties = [(''leadId'', SString), (''page'', SNumber), (''limit'', SNumber)],
     required = []\<rparr>,
    \<lparr>tool_name = ''volkern_list_interactions'',
     properties = [(''leadId'', SString)],
     required = [''leadId'']\<rparr>,
    \<lparr>tool_name = ''volkern_create_interaction'',
     properties = [(''leadId'', SString),
                   (''tipo'', SEnum [''llamada'', ''email'', ''whatsapp'', ''reunion'', ''nota'',
                                     ''otro'']),
                   (''contenido'', SString),
                   (''resultado'', SEnum [''positivo'', ''neutro'', ''negativo'']),
                   (''metadatos'', SObject)],
     required = [''leadId'', ''tipo'', ''contenido'']\<rparr>,
    \<lparr>tool_name = ''volkern_list_notes'',
     properties = [(''leadId'', SString)],
     required = [''leadId'']\<rparr>,
    \<lparr>tool_name = ''volkern_create_note'',
     properties = [(''leadId'', SString), (''contenido'', SString), (''titulo'', SString)],
     required = [''leadId'', ''contenido'']\<rparr>]"

definition tool_names :: "string list" where
  "tool_names = map tool_name tools"


subsection \<open>The API helper \<open>volkernRequest\<close>\<close>

text \<open>The configuration read at start-up (the process exits when the key is empty).\<close>

record config =
  VOLKERN_API_URL :: string
  VOLKERN_API_KEY :: string

text \<open>The URL and the \<open>RequestInit\<close> object given to \<open>fetch\<close>.\<close>

record http_request =
  url :: string
  http_method :: string
  headers :: "(string \<times> string) list"
  http_body :: "string option"

text \<open>A response: its status, and what \<open>response.json()\<close> gives, a parsed value or a
  rejection.\<close>

datatype response = Response (status: nat) (json_result: "thrown + json")

datatype fetch_outcome = Rejected thrown | Resolved response

type_synonym remote = "http_request list \<Rightarrow> http_request \<Rightarrow> fetch_outcome"

definition ok :: "response \<Rightarrow> bool" where
  "ok r = (200 \<le> status r \<and> status r \<le> 299)"

text \<open>\<open>fetch(url, options)\<close>: the call is logged and the remote decides the outcome.\<close>

definition fetch :: "remote \<Rightarrow> http_request list \<Rightarrow> http_request
    \<Rightarrow> fetch_outcome \<times> http_request list" where
  "fetch R log req = (R log req, log @ [req])"

text \<open>The request that \<open>volkernRequest\<close> builds.  The method defaults to \<open>GET\<close>; the body is
  attached when one is given and the method is not \<open>GET\<close>.\<close>

definition build_request :: "config \<Rightarrow> string \<Rightarrow> string option \<Rightarrow> obj option \<Rightarrow> http_request" where
  "build_request cfg endpoint method_arg body =
     (let method = (case method_arg of None \<Rightarrow> ''GET'' | Some m \<Rightarrow> m)
      in \<lparr>url = VOLKERN_API_URL cfg @ endpoint,
          http_method = method,
          headers = [(''Authorization'', ''Bearer '' @ VOLKERN_API_KEY cfg),
                     (''Content-Type'', ''application/json'')],
          http_body = (case body of
                         None \<Rightarrow> None
                       | Some b \<Rightarrow> if method \<noteq> ''GET'' then Some (JSON_stringify (JObject b))
                                  else None)\<rparr>)"

definition volkernRequest :: "config \<Rightarrow> remote \<Rightarrow> http_request list
    \<Rightarrow> string \<Rightarrow> string option \<Rightarrow> obj option \<Rightarrow> (thrown + json) \<times> http_request list" where
  "volkernRequest cfg R log endpoint method_arg body =
     (case fetch R log (build_request cfg endpoint method_arg body) of
        (Rejected e, log') \<Rightarrow> (Inl e, log')
      | (Resolved response, log') \<Rightarrow>
          if \<not> ok response then
            (let errorData = (case json_result response of
                                Inl e \<Rightarrow> JObject []
                              | Inr v \<Rightarrow> v)
             in (Inl (Error (''Volkern API Error ('' @ show_nat (status response) @ ''): ''
                              @ JSON_stringify errorData)), log'))
          else (json_result response, log'))"

subsection \<open>The tool handlers\<close>

text \<open>The objects of the program live in a store, a list of objects addressed by
  position.  The argument object of a tool call is one of them; a rest destructuring or an
  object literal allocates a new one at the end.\<close>

type_synonym store = "obj list"

definition alloc :: "store \<Rightarrow> obj \<Rightarrow> store \<times> nat" where
  "alloc h data = (h @ [data], length h)"

text \<open>\<open>const { key, ...data } = args\<close>, where \<open>args\<close> is the object at the address \<open>r\<close>, or
  \<open>undefined\<close> when \<open>r\<close> is \<open>None\<close>: the value of \<open>key\<close>, the store with the new object, and
  the address of the new object.\<close>

definition destructure :: "store \<Rightarrow> nat option \<Rightarrow> string
    \<Rightarrow> thrown + json option \<times> store \<times> nat" where
  "destructure h r key =
     (case r of
        None \<Rightarrow> Inl (TypeError (DestructureOfUndefined key))
      | Some a \<Rightarrow>
          (let (h', data) = alloc h (rest_without key (h ! a))
           in Inr (get_prop (h ! a) key, h', data)))"

text \<open>The arguments of the call \<open>volkernRequest(endpoint, method, body)\<close> that a branch of
  \<open>handleToolCall\<close> makes; \<open>None\<close> is an argument left out (or \<open>undefined\<close>), and the body is
  the address of the object passed.\<close>

record store_call =
  st_endpoint :: string
  st_method :: "string option"
  st_body :: "nat option"

definition list_leads_params :: "obj option \<Rightarrow> thrown + params" where
  "list_leads_params args =
     and_then (append_if_truthy args ''estado'' []) (\<lambda>params.
     and_then (append_if_truthy args ''canal'' params) (\<lambda>params.
     and_then (append_if_truthy args ''search'' params) (\<lambda>params.
     and_then (append_if_truthy args ''page'' params) (\<lambda>params.
     append_if_truthy args ''limit'' params))))"

definition check_disponibilidad_params :: "obj option \<Rightarrow> thrown + params" where
  "check_disponibilidad_params args =
     and_then (read_prop args ''fecha'') (\<lambda>fecha.
     and_then (js_String fecha) (\<lambda>s.
     append_if_truthy args ''duracion'' (params_append [] ''fecha'' s)))"

definition list_citas_params :: "obj option \<Rightarrow> thrown + params" where
  "list_citas_params args =
     and_then (append_if_truthy args ''estado'' []) (\<lambda>params.
     and_then (append_if_truthy args ''tipo'' params) (\<lambda>params.
     and_then (append_if_truthy args ''fecha'' params) (\<lambda>params.
     and_then (append_if_truthy args ''fechaInicio'' params) (\<lambda>params.
     append_if_truthy args ''fechaFin'' params))))"

definition list_servicios_params :: "obj option \<Rightarrow> thrown + params" where
  "list_servicios_params args = append_if_defined args ''activo'' []"

definition list_conversaciones_params :: "obj option \<Rightarrow> thrown + params" where
  "list_conversaciones_params args =
     and_then (append_if_truthy args ''leadId'' []) (\<lambda>params.
     and_then (append_if_truthy args ''page'' params) (\<lambda>params.
     append_if_truthy args ''limit'' params))"

text \<open>The template literal \<open>`${args.key}`\<close>.\<close>

definition template_prop :: "obj option \<Rightarrow> string \<Rightarrow> thrown + string" where
  "template_prop args key = and_then (read_prop args key) js_String"

text \<open>The \<open>switch\<close> of \<open>handleToolCall\<close> on the store \<open>h\<close>, with the argument object at
  the address \<open>r\<close> (\<open>None\<close> when the arguments are \<open>undefined\<close>): each case ends in
  \<open>return volkernRequest(...)\<close>, the default throws.\<close>

definition handleToolCall_store :: "string \<Rightarrow> store \<Rightarrow> nat option \<Rightarrow> thrown + store_call \<times> store" where
  "handleToolCall_store nm h r =
    (let args = map_option (\<lambda>a. h ! a) r in
     if nm = ''volkern_list_leads'' then
       and_then (list_leads_params args) (\<lambda>params.
         Inr (\<lparr>st_endpoint = ''/leads?'' @ params_toString params,
               st_method = None, st_body = None\<rparr>, h))
     else if nm = ''volkern_get_lead'' then
       and_then (template_prop args ''leadId'') (\<lambda>s.
         Inr (\<lparr>st_endpoint = ''/leads/'' @ s, st_method = None, st_body = None\<rparr>, h))
     else if nm = ''volkern_create_lead'' then
       Inr (\<lparr>st_endpoint = ''/leads'', st_method = Some ''POST'', st_body = r\<rparr>, h)
     else if nm = ''volkern_update_lead'' then
       and_then (destructure h r ''leadId'') (\<lambda>(leadId, h', data).
       and_then (js_String leadId) (\<lambda>s.
         Inr (\<lparr>st_endpoint = ''/leads/'' @ s,
               st_method = Some ''PATCH'', st_body = Some data\<rparr>, h')))
     else if nm = ''volkern_check_disponibilidad'' then
       and_then (check_disponibilidad_params args) (\<lambda>params.
         Inr (\<lparr>st_endpoint = ''/citas/disponibilidad?'' @ params_toString params,
               st_method = None, st_body = None\<rparr>, h))
     else if nm = ''volkern_list_citas'' then
       and_then (list_citas_params args) (\<lambda>params.
         Inr (\<lparr>st_endpoint = ''/citas?'' @ params_toString params,
               st_method = None, st_body = None\<rparr>, h))
     else if nm = ''volkern_create_cita'' then
       Inr (\<lparr>st_endpoint = ''/citas'', st_method = Some ''POST'', st_body = r\<rparr>, h)
     else if nm = ''volkern_update_cita'' then
       and_then (destructure h r ''citaId'') (\<lambda>(citaId, h', data).
       and_then (js_String citaId) (\<lambda>s.
         Inr (\<lparr>st_endpoint = ''/citas/'' @ s,
               st_method = Some ''PATCH'', st_body = Some data\<rparr>, h')))
     else if nm = ''volkern_cita_accion'' then
       Inr (\<lparr>st_endpoint = ''/citas/accion'', st_method = Some ''POST'', st_body = r\<rparr>, h)
     else if nm = ''volkern_list_servicios'' then
       and_then (list_servicios_params args) (\<lambda>params.
         Inr (\<lparr>st_endpoint = ''/servicios?'' @ params_toString params,
               st_method = None, st_body = None\<rparr>, h))
     else if nm = ''volkern_get_servicio'' then
       and_then (template_prop args ''servicioId'') (\<lambda>s.
         Inr (\<lparr>st_endpoint = ''/servicios/'' @ s, st_method = None, st_body = None\<rparr>, h))
     else if nm = ''volkern_create_task'' then
       and_then (destructure h r ''leadId'') (\<lambda>(leadId, h', taskData).
       and_then (js_String leadId) (\<lambda>s.
         Inr (\<lparr>st_endpoint = ''/leads/'' @ s @ ''/tasks'',
               st_method = Some ''POST'', st_body = Some taskData\<rparr>, h')))
     else if nm = ''volkern_list_tasks'' then
       and_then (template_prop args ''leadId'') (\<lambda>s.
         Inr (\<lparr>st_endpoint = ''/leads/'' @ s @ ''/tasks'',
               st_method = None, st_body = None\<rparr>, h))
     else if nm = ''volkern_complete_task'' then
       and_then (template_prop args ''taskId'') (\<lambda>s.
         (let (h', lit) = alloc h [(''completada'', JBool True)]
          in Inr (\<lparr>st_endpoint = ''/tasks/'' @ s,
                   st_method = Some ''PATCH'', st_body = Some lit\<rparr>, h')))
     else if nm = ''volkern_send_whatsapp'' then
       Inr (\<lparr>st_endpoint = ''/mensajes/enviar'', st_method = Some ''POST'',
             st_body = r\<rparr>, h)
     else if nm = ''volkern_list_conversaciones'' then
       and_then (list_conversaciones_params args) (\<lambda>params.
         Inr (\<lparr>st_endpoint = ''/mensajes/conversaciones?'' @ params_toString params,
               st_method = None, st_body = None\<rparr>, h))
     else if nm = ''volkern_list_interactions'' then
       and_then (template_prop args ''leadId'') (\<lambda>s.
         Inr (\<lparr>st_endpoint = ''/leads/'' @ s @ ''/interactions'',
               st_method = None, st_body = None\<rparr>, h))
     else if nm = ''volkern_create_interaction'' then
       and_then (destructure h r ''leadId'') (\<lambda>(leadId, h', interactionData).
       and_then (js_String leadId) (\<lambda>s.
         Inr (\<lparr>st_endpoint = ''/leads/'' @ s @ ''/interactions'',
               st_method = Some ''POST'', st_body = Some interactionData\<rparr>, h')))
     else if nm = ''volkern_list_notes'' then
       and_then (template_prop args ''leadId'') (\<lambda>s.
         Inr (\<lparr>st_endpoint = ''/leads/'' @ s @ ''/notes'',
               st_method = None, st_body = None\<rparr>, h))
     else if nm = ''volkern_create_note'' then
       and_then (destructure h r ''leadId'') (\<lambda>(noteLeadId, h', noteData).
       and_then (js_String noteLeadId) (\<lambda>s.
         Inr (\<lparr>st_endpoint = ''/leads/'' @ s @ ''/notes'',
               st_method = Some ''POST'', st_body = Some noteData\<rparr>, h')))
     else Inl (Error (''Unknown tool: '' @ nm)))"

text \<open>The same call with the body read from the store: the endpoint, the method and the
  object that \<open>volkernRequest\<close> receives.\<close>

record api_call =
  call_endpoint :: string
  call_method :: "string option"
  call_body :: "obj option"

definition deref_call :: "store_call \<times> store \<Rightarrow> api_call" where
  "deref_call r =
     \<lparr>call_endpoint = st_endpoint (fst r), call_method = st_method (fst r),
      call_body = map_option (\<lambda>b. snd r ! b) (st_body (fst r))\<rparr>"

text \<open>The call made for the arguments \<open>args\<close>: an object, which is then the only object
  of the store at the call, or \<open>undefined\<close>.\<close>

definition handleToolCall_args :: "string \<Rightarrow> obj option \<Rightarrow> thrown + api_call" where
  "handleToolCall_args nm args =
     map_sum id deref_call
       (handleToolCall_store nm (case args of None \<Rightarrow> [] | Some a \<Rightarrow> [a])
          (map_option (\<lambda>a. 0) args))"

definition handleToolCall :: "config \<Rightarrow> remote \<Rightarrow> http_request list \<Rightarrow> string \<Rightarrow> obj option
    \<Rightarrow> (thrown + json) \<times> http_request list" where
  "handleToolCall cfg R log nm args =
     (case handleToolCall_args nm args of
        Inl e \<Rightarrow> (Inl e, log)
      | Inr c \<Rightarrow> volkernRequest cfg R log (call_endpoint c) (call_method c) (call_body c))"

subsection \<open>The request handler for tool calls\<close>

record text_content =
  content_type :: string
  content_text :: string

text \<open>The result envelope; \<open>isError = None\<close> is the field left out.\<close>

record envelope =
  content :: "text_content list"
  isError :: "bool option"

text \<open>\<open>error instanceof Error ? error.message : String(error)\<close>: what is thrown is an \<open>Error\<close>
  instance, so the message is taken; \<open>engine\<close> gives the message text of a \<open>TypeError\<close> of the
  language.\<close>

definition errorMessage :: "(type_error \<Rightarrow> string) \<Rightarrow> thrown \<Rightarrow> string" where
  "errorMessage engine e = (case e of Error m \<Rightarrow> m | TypeError t \<Rightarrow> engine t)"

definition callToolHandler :: "(type_error \<Rightarrow> string) \<Rightarrow> config \<Rightarrow> remote
    \<Rightarrow> http_request list \<Rightarrow> string \<Rightarrow> obj option \<Rightarrow> envelope \<times> http_request list" where
  "callToolHandler engine cfg R log nm args =
     (case handleToolCall cfg R log nm args of
        (Inr result, log') \<Rightarrow>
          (\<lparr>content = [\<lparr>content_type = ''text'', content_text = JSON_stringify2 result\<rparr>],
            isError = None\<rparr>, log')
      | (Inl e, log') \<Rightarrow>
          (\<lparr>content = [\<lparr>content_type = ''text'',
                         content_text = ''Error: '' @ errorMessage engine e\<rparr>],
            isError = Some True\<rparr>, log'))"

subsection \<open>Values for the examples\<close>

text \<open>A remote that gives the same outcome to every request.\<close>

definition remote_always :: "fetch_outcome \<Rightarrow> remote" where
  "remote_always out log req = out"

text \<open>The message texts of V8, the engine of Node.js.\<close>

definition v8_message :: "type_error \<Rightarrow> string" where
  "v8_message t =
     (case t of
        CannotConvert \<Rightarrow> ''Cannot convert object to primitive value''
      | ReadOfUndefined key \<Rightarrow>
          ''Cannot read properties of undefined (reading '' @ [CHR 0x27] @ key @ [CHR 0x27] @ '')''
      | DestructureOfUndefined key \<Rightarrow>
          ''Cannot destructure property '' @ [CHR 0x27] @ key @ [CHR 0x27]
          @ '' of '' @ [CHR 0x27] @ ''args'' @ [CHR 0x27] @ '' as it is undefined.'')"

definition example_config :: config where
  "example_config = \<lparr>VOLKERN_API_URL = ''https://volkern.app/api'', VOLKERN_API_KEY = ''k''\<rparr>"

subsection \<open>An auxiliary function\<close>

text \<open>The conditional appends for a list of keys, in order; the parameter builders of the
  list tools are instances of it (shown below).\<close>

fun append_all_truthy :: "obj option \<Rightarrow> string list \<Rightarrow> params \<Rightarrow> thrown + params" where
  "append_all_truthy args [] ps = Inr ps"
| "append_all_truthy args (k # ks) ps =
     and_then (append_if_truthy args k ps) (append_all_truthy args ks)"

section \<open>Properties\<close>

subsection \<open>Auxiliary facts\<close>

lemma and_then_simps [simp]:
  "and_then (Inl e) f = Inl e"
  "and_then (Inr v) f = f v"
  by (simp_all add: and_then_def)

lemma map_sum_and_then:
  "map_sum id g (and_then x f) = and_then x (\<lambda>v. map_sum id g (f v))"
  by (cases x) simp_all

lemma and_then_cases:
  "and_then x f = (case x of Inl e \<Rightarrow> Inl e | Inr v \<Rightarrow> f v)"
  by (simp add: and_then_def)

lemma read_prop_Some [simp]: "read_prop (Some a) key = Inr (get_prop a key)"
  by (simp add: read_prop_def)

lemma template_prop_Some [simp]: "template_prop (Some a) key = js_String (get_prop a key)"
  by (simp add: template_prop_def)

lemma get_prop_rest_without:
  "get_prop (rest_without k args) k' = (if k' = k then None else get_prop args k')"
  by (induction args) (auto simp: get_prop_def rest_without_def)

lemma key_not_in_rest_without: "k \<notin> fst ` set (rest_without k args)"
  by (auto simp: rest_without_def)

lemma sublist_suffix: "sublist xs (ps @ xs)"
  unfolding sublist_def by (intro exI [of _ ps] exI [of _ "[]"]) simp

lemma sublist_middle: "sublist xs (ps @ xs @ ss)"
  unfolding sublist_def by blast

text \<open>A conversion to a string throws nothing but the \<open>TypeError\<close> of an object that
  cannot be converted.\<close>

lemma collect_fail:
  assumes "collect xs = Inl e"
  shows "\<exists>x \<in> set xs. x = Inl e"
  using assms by (induction xs) (auto split: sum.splits)

lemma toString_fail:
  assumes "toString v = Inl e"
  shows "e = TypeError CannotConvert"
  using assms
proof (induction v rule: toString.induct)
  case (5 xs)
  from "5.prems" have "collect (map (\<lambda>x. if x = JNull then Inr [] else toString x) xs) = Inl e"
    by (simp split: sum.splits)
  from collect_fail [OF this] obtain x where "x \<in> set xs" "x \<noteq> JNull" "toString x = Inl e"
    by (auto split: if_splits)
  with "5.IH" show ?case
    by blast
next
  case (6 kvs)
  then show ?case
    by (simp split: if_splits)
qed simp_all

lemma handleToolCall_unknown:
  assumes "nm \<notin> set tool_names"
  shows "handleToolCall_args nm args = Inl (Error (''Unknown tool: '' @ nm))"
  using assms
  by (simp add: tool_names_def tools_def handleToolCall_args_def handleToolCall_store_def Let_def)

text \<open>The call of each tool for an argument object.\<close>

lemma body_calls:
  "handleToolCall_args ''volkern_create_lead'' (Some args) =
     Inr \<lparr>call_endpoint = ''/leads'', call_method = Some ''POST'', call_body = Some args\<rparr>"
  "handleToolCall_args ''volkern_create_cita'' (Some args) =
     Inr \<lparr>call_endpoint = ''/citas'', call_method = Some ''POST'', call_body = Some args\<rparr>"
  "handleToolCall_args ''volkern_cita_accion'' (Some args) =
     Inr \<lparr>call_endpoint = ''/citas/accion'', call_method = Some ''POST'', call_body = Some args\<rparr>"
  "handleToolCall_args ''volkern_send_whatsapp'' (Some args) =
     Inr \<lparr>call_endpoint = ''/mensajes/enviar'', call_method = Some ''POST'',
          call_body = Some args\<rparr>"
  by (simp_all add: handleToolCall_args_def handleToolCall_store_def deref_call_def)

lemma path_calls:
  "handleToolCall_args ''volkern_get_lead'' (Some args) =
     and_then (js_String (get_prop args ''leadId'')) (\<lambda>s.
       Inr \<lparr>call_endpoint = ''/leads/'' @ s, call_method = None, call_body = None\<rparr>)"
  "handleToolCall_args ''volkern_get_servicio'' (Some args) =
     and_then (js_String (get_prop args ''servicioId'')) (\<lambda>s.
       Inr \<lparr>call_endpoint = ''/servicios/'' @ s, call_method = None, call_body = None\<rparr>)"
  "handleToolCall_args ''volkern_list_tasks'' (Some args) =
     and_then (js_String (get_prop args ''leadId'')) (\<lambda>s.
       Inr \<lparr>call_endpoint = ''/leads/'' @ s @ ''/tasks'', call_method = None,
            call_body = None\<rparr>)"
  "handleToolCall_args ''volkern_list_interactions'' (Some args) =
     and_then (js_String (get_prop args ''leadId'')) (\<lambda>s.
       Inr \<lparr>call_endpoint = ''/leads/'' @ s @ ''/interactions'', call_method = None,
            call_body = None\<rparr>)"
  "handleToolCall_args ''volkern_list_notes'' (Some args) =
     and_then (js_String (get_prop args ''leadId'')) (\<lambda>s.
       Inr \<lparr>call_endpoint = ''/leads/'' @ s @ ''/notes'', call_method = None,
            call_body = None\<rparr>)"
  "handleToolCall_args ''volkern_complete_task'' (Some args) =
     and_then (js_String (get_prop args ''taskId'')) (\<lambda>s.
       Inr \<lparr>call_endpoint = ''/tasks/'' @ s, call_method = Some ''PATCH'',
            call_body = Some [(''completada'', JBool True)]\<rparr>)"
  by (simp_all add: handleToolCall_args_def handleToolCall_store_def deref_call_def alloc_def
      map_sum_and_then)

lemma strip_calls:
  "handleToolCall_args ''volkern_update_lead'' (Some args) =
     and_then (js_String (get_prop args ''leadId'')) (\<lambda>s.
       Inr \<lparr>call_endpoint = ''/leads/'' @ s, call_method = Some ''PATCH'',
            call_body = Some (rest_without ''leadId'' args)\<rparr>)"
  "handleToolCall_args ''volkern_update_cita'' (Some args) =
     and_then (js_String (get_prop args ''citaId'')) (\<lambda>s.
       Inr \<lparr>call_endpoint = ''/citas/'' @ s, call_method = Some ''PATCH'',
            call_body = Some (rest_without ''citaId'' args)\<rparr>)"
  "handleToolCall_args ''volkern_create_task'' (Some args) =
     and_then (js_String (get_prop args ''leadId'')) (\<lambda>s.
       Inr \<lparr>call_endpoint = ''/leads/'' @ s @ ''/tasks'', call_method = Some ''POST'',
            call_body = Some (rest_without ''leadId'' args)\<rparr>)"
  "handleToolCall_args ''volkern_create_interaction'' (Some args) =
     and_then (js_String (get_prop args ''leadId'')) (\<lambda>s.
       Inr \<lparr>call_endpoint = ''/leads/'' @ s @ ''/interactions'', call_method = Some ''POST'',
            call_body = Some (rest_without ''leadId'' args)\<rparr>)"
  "handleToolCall_args ''volkern_create_note'' (Some args) =
     and_then (js_String (get_prop args ''leadId'')) (\<lambda>s.
       Inr \<lparr>call_endpoint = ''/leads/'' @ s @ ''/notes'', call_method = Some ''POST'',
            call_body = Some (rest_without ''leadId'' args)\<rparr>)"
  by (simp_all add: handleToolCall_args_def handleToolCall_store_def deref_call_def alloc_def
      destructure_def map_sum_and_then)

lemma query_calls:
  "handleToolCall_args ''volkern_list_leads'' args =
     and_then (list_leads_params args) (\<lambda>ps.
       Inr \<lparr>call_endpoint = ''/leads?'' @ params_toString ps, call_method = None,
            call_body = None\<rparr>)"
  "handleToolCall_args ''volkern_check_disponibilidad'' args =
     and_then (check_disponibilidad_params args) (\<lambda>ps.
       Inr \<lparr>call_endpoint = ''/citas/disponibilidad?'' @ params_toString ps,
            call_method = None, call_body = None\<rparr>)"
  "handleToolCall_args ''volkern_list_citas'' args =
     and_then (list_citas_params args) (\<lambda>ps.
       Inr \<lparr>call_endpoint = ''/citas?'' @ params_toString ps, call_method = None,
            call_body = None\<rparr>)"
  "handleToolCall_args ''volkern_list_servicios'' args =
     and_then (list_servicios_params args) (\<lambda>ps.
       Inr \<lparr>call_endpoint = ''/servicios?'' @ params_toString ps, call_method = None,
            call_body = None\<rparr>)"
  "handleToolCall_args ''volkern_list_conversaciones'' args =
     and_then (list_conversaciones_params args) (\<lambda>ps.
       Inr \<lparr>call_endpoint = ''/mensajes/conversaciones?'' @ params_toString ps,
            call_method = None, call_body = None\<rparr>)"
  by (cases args; simp add: handleToolCall_args_def handleToolCall_store_def deref_call_def
      map_sum_and_then)+

subsection \<open>Unknown tools\<close>

text \<open>
  Claim C1.  For a tool name that is not in the registry, and any arguments, the handler
  returns the failure envelope whose text is \<open>Error: Unknown tool: <name>\<close>, so the text
  contains the name itself; \<open>fetch\<close> is not called (the log is unchanged).  The throw of the
  default case is caught by the handler: the result is an envelope.
\<close>

theorem unknown_tool_failure:
  assumes "nm \<notin> set tool_names"
  shows "callToolHandler engine cfg R log nm args =
           (\<lparr>content = [\<lparr>content_type = ''text'',
                          content_text = ''Error: Unknown tool: '' @ nm\<rparr>],
             isError = Some True\<rparr>, log)
         \<and> sublist nm
              (content_text (hd (content (fst (callToolHandler engine cfg R log nm args)))))"
proof -
  have call: "handleToolCall cfg R log nm args = (Inl (Error (''Unknown tool: '' @ nm)), log)"
    by (simp add: handleToolCall_def handleToolCall_unknown [OF assms])
  have env: "callToolHandler engine cfg R log nm args =
           (\<lparr>content = [\<lparr>content_type = ''text'',
                          content_text = ''Error: Unknown tool: '' @ nm\<rparr>],
             isError = Some True\<rparr>, log)"
    by (simp add: callToolHandler_def call errorMessage_def)
  have "sublist nm (''Error: Unknown tool: '' @ nm)"
    by (rule sublist_suffix)
  with env show ?thesis by simp
qed

theorem unknown_tool_failure_witness:
  "''volkern_delete_lead'' \<notin> set tool_names
   \<and> callToolHandler v8_message
        \<lparr>VOLKERN_API_URL = ''https://volkern.app/api'', VOLKERN_API_KEY = ''k''\<rparr>
        (\<lambda>log req. Rejected (Error ''unreachable'')) [] ''volkern_delete_lead''
        (Some [(''leadId'', JString ''abc123'')])
      = (\<lparr>content = [\<lparr>content_type = ''text'',
                          content_text = ''Error: Unknown tool: volkern_delete_lead''\<rparr>],
          isError = Some True\<rparr>, [])"
proof -
  have h: "''volkern_delete_lead'' \<notin> set tool_names"
    by (simp add: tool_names_def tools_def)
  show ?thesis
    using h unknown_tool_failure [OF h] by simp
qed

subsection \<open>The outcomes of \<open>volkernRequest\<close>\<close>

lemma volkernRequest_rejected:
  assumes "R log (build_request cfg ep m b) = Rejected e"
  shows "volkernRequest cfg R log ep m b = (Inl e, log @ [build_request cfg ep m b])"
  using assms by (simp add: volkernRequest_def fetch_def)

lemma volkernRequest_ok:
  assumes "R log (build_request cfg ep m b) = Resolved resp" and "ok resp"
  shows "volkernRequest cfg R log ep m b = (json_result resp, log @ [build_request cfg ep m b])"
  using assms by (simp add: volkernRequest_def fetch_def)

lemma volkernRequest_not_ok:
  assumes "R log (build_request cfg ep m b) = Resolved resp" and "\<not> ok resp"
  shows "volkernRequest cfg R log ep m b =
           (Inl (Error (''Volkern API Error ('' @ show_nat (status resp) @ ''): ''
                        @ JSON_stringify (case json_result resp of Inl e \<Rightarrow> JObject [] | Inr v \<Rightarrow> v))),
            log @ [build_request cfg ep m b])"
  using assms by (simp add: volkernRequest_def fetch_def)

lemma volkernRequest_log:
  "snd (volkernRequest cfg R log ep m b) = log @ [build_request cfg ep m b]"
  by (simp add: volkernRequest_def fetch_def split: fetch_outcome.splits)


subsection \<open>The result envelope\<close>

text \<open>
  Claim C2.  Every tool call yields one envelope, whose content is one text item.  When
  \<open>handleToolCall\<close> returns a payload, the envelope carries the payload serialised by
  \<open>JSON.stringify(result, null, 2)\<close> and has no \<open>isError\<close> field; when anything is thrown,
  the envelope carries \<open>Error: <message>\<close> with \<open>isError: true\<close>, the message of an \<open>Error\<close>
  being its message text.  In particular, when the remote answers the request of a
  registered tool with a success status and a body that parses to \<open>result\<close>, the envelope
  is the success envelope of \<open>result\<close> and \<open>fetch\<close> was called once.
\<close>

theorem handler_envelope:
  "(handleToolCall cfg R log nm args = (Inr payload, log') \<longrightarrow>
      callToolHandler engine cfg R log nm args =
        (\<lparr>content = [\<lparr>content_type = ''text'', content_text = JSON_stringify2 payload\<rparr>],
          isError = None\<rparr>, log'))
   \<and> (handleToolCall cfg R log nm args = (Inl e, log') \<longrightarrow>
      callToolHandler engine cfg R log nm args =
        (\<lparr>content = [\<lparr>content_type = ''text'',
                       content_text = ''Error: '' @ errorMessage engine e\<rparr>],
          isError = Some True\<rparr>, log'))
   \<and> errorMessage engine (Error msg) = msg
   \<and> (handleToolCall_args nm args = Inr c
        \<and> R log (build_request cfg (call_endpoint c) (call_method c) (call_body c))
            = Resolved (Response st (Inr result))
        \<and> 200 \<le> st \<and> st \<le> 299 \<longrightarrow>
      callToolHandler engine cfg R log nm args =
        (\<lparr>content = [\<lparr>content_type = ''text'', content_text = JSON_stringify2 result\<rparr>],
          isError = None\<rparr>,
         log @ [build_request cfg (call_endpoint c) (call_method c) (call_body c)]))
   \<and> (\<exists>txt. content (fst (callToolHandler engine cfg R log nm args))
               = [\<lparr>content_type = ''text'', content_text = txt\<rparr>])"
proof (intro conjI impI)
  assume "handleToolCall cfg R log nm args = (Inr payload, log')"
  then show "callToolHandler engine cfg R log nm args =
        (\<lparr>content = [\<lparr>content_type = ''text'', content_text = JSON_stringify2 payload\<rparr>],
          isError = None\<rparr>, log')"
    by (simp add: callToolHandler_def)
next
  assume "handleToolCall cfg R log nm args = (Inl e, log')"
  then show "callToolHandler engine cfg R log nm args =
        (\<lparr>content = [\<lparr>content_type = ''text'',
                       content_text = ''Error: '' @ errorMessage engine e\<rparr>],
          isError = Some True\<rparr>, log')"
    by (simp add: callToolHandler_def)
next
  show "errorMessage engine (Error msg) = msg"
    by (simp add: errorMessage_def)
next
  assume h: "handleToolCall_args nm args = Inr c
        \<and> R log (build_request cfg (call_endpoint c) (call_method c) (call_body c))
            = Resolved (Response st (Inr result))
        \<and> 200 \<le> st \<and> st \<le> 299"
  then have "ok (Response st (Inr result))"
    by (simp add: ok_def)
  with h have "handleToolCall cfg R log nm args =
      (Inr result, log @ [build_request cfg (call_endpoint c) (call_method c) (call_body c)])"
    by (simp add: handleToolCall_def volkernRequest_ok)
  then show "callToolHandler engine cfg R log nm args =
        (\<lparr>content = [\<lparr>content_type = ''text'', content_text = JSON_stringify2 result\<rparr>],
          isError = None\<rparr>,
         log @ [build_request cfg (call_endpoint c) (call_method c) (call_body c)])"
    by (simp add: callToolHandler_def)
next
  show "\<exists>txt. content (fst (callToolHandler engine cfg R log nm args))
               = [\<lparr>content_type = ''text'', content_text = txt\<rparr>]"
    by (cases "handleToolCall cfg R log nm args")
       (auto simp: callToolHandler_def split: sum.splits)
qed

text \<open>The remote answers \<open>{"id":"42"}\<close> to \<open>volkern_create_lead\<close> with \<open>{nombre: "Juan"}\<close>;
  and \<open>fetch\<close> rejects with the message \<open>fetch failed\<close>.\<close>

theorem handler_envelope_witness:
  "callToolHandler v8_message
      \<lparr>VOLKERN_API_URL = ''https://volkern.app/api'', VOLKERN_API_KEY = ''k''\<rparr>
      (\<lambda>log req. Resolved (Response 200 (Inr (JObject [(''id'', JString ''42'')])))) []
      ''volkern_create_lead'' (Some [(''nombre'', JString ''Juan'')])
    = (\<lparr>content = [\<lparr>content_type = ''text'',
                      content_text = ''{'' @ [CHR 0x0A] @ ''  '' @ [CHR 0x22] @ ''id'' @ [CHR 0x22]
                                     @ '': '' @ [CHR 0x22] @ ''42'' @ [CHR 0x22] @ [CHR 0x0A]
                                     @ ''}''\<rparr>],
         isError = None\<rparr>,
       [\<lparr>url = ''https://volkern.app/api/leads'', http_method = ''POST'',
         headers = [(''Authorization'', ''Bearer k''), (''Content-Type'', ''application/json'')],
         http_body = Some (''{'' @ [CHR 0x22] @ ''nombre'' @ [CHR 0x22] @ '':'' @ [CHR 0x22]
                           @ ''Juan'' @ [CHR 0x22] @ ''}'')\<rparr>])
   \<and> callToolHandler v8_message
      \<lparr>VOLKERN_API_URL = ''https://volkern.app/api'', VOLKERN_API_KEY = ''k''\<rparr>
      (\<lambda>log req. Rejected (Error ''fetch failed'')) []
      ''volkern_create_lead'' (Some [(''nombre'', JString ''Juan'')])
    = (\<lparr>content = [\<lparr>content_type = ''text'', content_text = ''Error: fetch failed''\<rparr>],
         isError = Some True\<rparr>,
       [\<lparr>url = ''https://volkern.app/api/leads'', http_method = ''POST'',
         headers = [(''Authorization'', ''Bearer k''), (''Content-Type'', ''application/json'')],
         http_body = Some (''{'' @ [CHR 0x22] @ ''nombre'' @ [CHR 0x22] @ '':'' @ [CHR 0x22]
                           @ ''Juan'' @ [CHR 0x22] @ ''}'')\<rparr>])"
proof -
  let ?cfg = "\<lparr>VOLKERN_API_URL = ''https://volkern.app/api'', VOLKERN_API_KEY = ''k''\<rparr>"
  let ?args = "[(''nombre'', JString ''Juan'')]"
  let ?c = "\<lparr>call_endpoint = ''/leads'', call_method = Some ''POST'', call_body = Some ?args\<rparr>"
  let ?ok = "\<lambda>(log::http_request list) (req::http_request).
               Resolved (Response 200 (Inr (JObject [(''id'', JString ''42'')])))"
  let ?ko = "\<lambda>(log::http_request list) (req::http_request). Rejected (Error ''fetch failed'')"
  have req: "build_request ?cfg ''/leads'' (Some ''POST'') (Some ?args)
      = \<lparr>url = ''https://volkern.app/api/leads'', http_method = ''POST'',
         headers = [(''Authorization'', ''Bearer k''), (''Content-Type'', ''application/json'')],
         http_body = Some (''{'' @ [CHR 0x22] @ ''nombre'' @ [CHR 0x22] @ '':'' @ [CHR 0x22]
                           @ ''Juan'' @ [CHR 0x22] @ ''}'')\<rparr>"
    by (simp add: build_request_def JSON_stringify_def quote_def quote_char_def)
  have str: "JSON_stringify2 (JObject [(''id'', JString ''42'')])
      = ''{'' @ [CHR 0x0A] @ ''  '' @ [CHR 0x22] @ ''id'' @ [CHR 0x22]
              @ '': '' @ [CHR 0x22] @ ''42'' @ [CHR 0x22] @ [CHR 0x0A] @ ''}''"
    by (simp add: JSON_stringify2_def quote_def quote_char_def)
  have good: "callToolHandler v8_message ?cfg ?ok [] ''volkern_create_lead'' (Some ?args)
      = (\<lparr>content = [\<lparr>content_type = ''text'',
             content_text = JSON_stringify2 (JObject [(''id'', JString ''42'')])\<rparr>],
           isError = None\<rparr>,
         [] @ [build_request ?cfg (call_endpoint ?c) (call_method ?c) (call_body ?c)])"
    using handler_envelope [where cfg = ?cfg and R = ?ok and log = "[]"
        and nm = "''volkern_create_lead''" and args = "Some ?args" and c = ?c and st = 200
        and result = "JObject [(''id'', JString ''42'')]" and engine = v8_message]
    by (simp add: body_calls)
  have call: "handleToolCall ?cfg ?ko [] ''volkern_create_lead'' (Some ?args)
      = (Inl (Error ''fetch failed''),
         [build_request ?cfg ''/leads'' (Some ''POST'') (Some ?args)])"
    by (simp add: handleToolCall_def body_calls volkernRequest_rejected)
  have bad: "callToolHandler v8_message ?cfg ?ko [] ''volkern_create_lead'' (Some ?args)
      = (\<lparr>content = [\<lparr>content_type = ''text'',
             content_text = ''Error: '' @ errorMessage v8_message (Error ''fetch failed'')\<rparr>],
           isError = Some True\<rparr>,
         [build_request ?cfg ''/leads'' (Some ''POST'') (Some ?args)])"
    using handler_envelope [where cfg = ?cfg and R = ?ko and log = "[]"
        and nm = "''volkern_create_lead''" and args = "Some ?args"
        and log' = "[build_request ?cfg ''/leads'' (Some ''POST'') (Some ?args)]"
        and e = "Error ''fetch failed''" and engine = v8_message]
      call
    by blast
  show ?thesis
    using good bad by (simp add: req str errorMessage_def)
qed

subsection \<open>Rejection by the remote API\<close>

text \<open>
  Claim C3.  When the remote answers the request of a tool call with a status outside
  200..299, the handler returns the failure envelope whose message is
  \<open>Volkern API Error (<status>): <payload>\<close>: it contains the status in decimal and the
  serialised error payload, which is the parsed error body, or the empty object when the body
  does not parse.  \<open>fetch\<close> was called once: the log has grown by the one request.
\<close>

theorem remote_rejection_failure:
  assumes "handleToolCall_args nm args = Inr c"
    and "req = build_request cfg (call_endpoint c) (call_method c) (call_body c)"
    and "R log req = Resolved resp"
    and "\<not> ok resp"
    and "errorData = (case json_result resp of Inl e \<Rightarrow> JObject [] | Inr v \<Rightarrow> v)"
    and "msg = ''Volkern API Error ('' @ show_nat (status resp) @ ''): ''
                 @ JSON_stringify errorData"
  shows "callToolHandler engine cfg R log nm args =
           (\<lparr>content = [\<lparr>content_type = ''text'', content_text = ''Error: '' @ msg\<rparr>],
             isError = Some True\<rparr>, log @ [req])
         \<and> sublist (show_nat (status resp)) msg
         \<and> sublist (JSON_stringify errorData) msg"
proof -
  have "handleToolCall cfg R log nm args = (Inl (Error msg), log @ [req])"
    using assms by (simp add: handleToolCall_def volkernRequest_not_ok)
  then have env: "callToolHandler engine cfg R log nm args =
           (\<lparr>content = [\<lparr>content_type = ''text'', content_text = ''Error: '' @ msg\<rparr>],
             isError = Some True\<rparr>, log @ [req])"
    by (simp add: callToolHandler_def errorMessage_def)
  have s1: "sublist (show_nat (status resp)) msg"
    unfolding assms(6) by (rule sublist_middle)
  have "msg = (''Volkern API Error ('' @ show_nat (status resp) @ ''): '')
                 @ JSON_stringify errorData"
    by (simp add: assms(6))
  then have s2: "sublist (JSON_stringify errorData) msg"
    using sublist_suffix by metis
  from env s1 s2 show ?thesis by simp
qed

text \<open>HTTP 409 with the body \<open>{"error":"slot_taken"}\<close> for \<open>volkern_create_cita\<close>.\<close>

lemma slot_taken_string:
  "JSON_stringify (JObject [(''error'', JString ''slot_taken'')])
     = ''{'' @ [CHR 0x22] @ ''error'' @ [CHR 0x22] @ '':'' @ [CHR 0x22] @ ''slot_taken''
       @ [CHR 0x22] @ ''}''"
  by (simp add: JSON_stringify_def quote_def quote_char_def)

theorem remote_rejection_failure_witness:
  "\<not> ok (Response 409 (Inr (JObject [(''error'', JString ''slot_taken'')])))
   \<and> fst (callToolHandler v8_message
        \<lparr>VOLKERN_API_URL = ''https://volkern.app/api'', VOLKERN_API_KEY = ''k''\<rparr>
        (\<lambda>log req. Resolved (Response 409 (Inr (JObject [(''error'', JString ''slot_taken'')]))))
        [] ''volkern_create_cita''
        (Some [(''leadId'', JString ''abc123''), (''fechaHora'', JString ''2026-02-10T10:00:00Z'')]))
      = \<lparr>content = [\<lparr>content_type = ''text'',
             content_text = ''Error: Volkern API Error (409): {'' @ [CHR 0x22] @ ''error''
                            @ [CHR 0x22] @ '':'' @ [CHR 0x22] @ ''slot_taken'' @ [CHR 0x22]
                            @ ''}''\<rparr>],
          isError = Some True\<rparr>
   \<and> length (snd (callToolHandler v8_message
        \<lparr>VOLKERN_API_URL = ''https://volkern.app/api'', VOLKERN_API_KEY = ''k''\<rparr>
        (\<lambda>log req. Resolved (Response 409 (Inr (JObject [(''error'', JString ''slot_taken'')]))))
        [] ''volkern_create_cita''
        (Some [(''leadId'', JString ''abc123''), (''fechaHora'', JString ''2026-02-10T10:00:00Z'')])))
      = 1
   \<and> sublist ''409'' (''Volkern API Error (409): {'' @ [CHR 0x22] @ ''error''
                            @ [CHR 0x22] @ '':'' @ [CHR 0x22] @ ''slot_taken'' @ [CHR 0x22]
                            @ ''}'')
   \<and> sublist ''slot_taken'' (''Volkern API Error (409): {'' @ [CHR 0x22] @ ''error''
                            @ [CHR 0x22] @ '':'' @ [CHR 0x22] @ ''slot_taken'' @ [CHR 0x22]
                            @ ''}'')"
proof -
  let ?cfg = "\<lparr>VOLKERN_API_URL = ''https://volkern.app/api'', VOLKERN_API_KEY = ''k''\<rparr>"
  let ?args = "[(''leadId'', JString ''abc123''), (''fechaHora'', JString ''2026-02-10T10:00:00Z'')]"
  let ?resp = "Response 409 (Inr (JObject [(''error'', JString ''slot_taken'')]))"
  let ?R = "\<lambda>(log::http_request list) (req::http_request). Resolved ?resp"
  have nok: "\<not> ok ?resp"
    by (simp add: ok_def)
  have num: "show_nat 409 = ''409''"
    by (simp add: show_nat.simps)
  have inst: "callToolHandler v8_message ?cfg ?R [] ''volkern_create_cita'' (Some ?args) =
           (\<lparr>content = [\<lparr>content_type = ''text'',
              content_text = ''Error: '' @ (''Volkern API Error ('' @ show_nat (status ?resp) @ ''): ''
                 @ JSON_stringify (JObject [(''error'', JString ''slot_taken'')]))\<rparr>],
             isError = Some True\<rparr>, [] @ [build_request ?cfg ''/citas'' (Some ''POST'') (Some ?args)])
         \<and> sublist (show_nat (status ?resp)) (''Volkern API Error ('' @ show_nat (status ?resp) @ ''): ''
                 @ JSON_stringify (JObject [(''error'', JString ''slot_taken'')]))
         \<and> sublist (JSON_stringify (JObject [(''error'', JString ''slot_taken'')]))
               (''Volkern API Error ('' @ show_nat (status ?resp) @ ''): ''
                 @ JSON_stringify (JObject [(''error'', JString ''slot_taken'')]))"
    by (rule remote_rejection_failure [OF body_calls(2) _ _ nok]) simp_all
  have inner: "sublist ''slot_taken'' (JSON_stringify (JObject [(''error'', JString ''slot_taken'')]))"
    unfolding slot_taken_string
    using sublist_middle [of "''slot_taken''" "''{'' @ [CHR 0x22] @ ''error'' @ [CHR 0x22] @ '':'' @ [CHR 0x22]"
        "[CHR 0x22] @ ''}''"]
    by simp
  from inst inner have s2: "sublist ''slot_taken'' (''Volkern API Error ('' @ show_nat (status ?resp) @ ''): ''
                 @ JSON_stringify (JObject [(''error'', JString ''slot_taken'')]))"
    by (meson sublist_order.order_trans)
  show ?thesis
    using nok inst s2 by (simp add: num slot_taken_string)
qed

subsection \<open>Identifiers in the path\<close>

lemma stripped_call:
  assumes "handleToolCall_args nm (Some args) =
             and_then (js_String (get_prop args key)) (\<lambda>s.
               Inr \<lparr>call_endpoint = pre @ s @ suf, call_method = Some m,
                    call_body = Some (rest_without key args)\<rparr>)"
    and "m \<noteq> ''GET''"
  shows "handleToolCall_args nm (Some args) =
           (case js_String (get_prop args key) of
              Inl e \<Rightarrow> Inl e
            | Inr s \<Rightarrow> Inr \<lparr>call_endpoint = pre @ s @ suf, call_method = Some m,
                            call_body = Some (rest_without key args)\<rparr>)
         \<and> key \<notin> fst ` set (rest_without key args)
         \<and> get_prop (rest_without key args) key = None
         \<and> (\<forall>k. k \<noteq> key \<longrightarrow> get_prop (rest_without key args) k = get_prop args k)
         \<and> (\<forall>s. build_request cfg (pre @ s @ suf) (Some m) (Some (rest_without key args))
               = \<lparr>url = VOLKERN_API_URL cfg @ pre @ s @ suf, http_method = m,
                  headers = [(''Authorization'', ''Bearer '' @ VOLKERN_API_KEY cfg),
                             (''Content-Type'', ''application/json'')],
                  http_body = Some (JSON_stringify (JObject (rest_without key args)))\<rparr>)"
  using assms
  by (simp add: key_not_in_rest_without get_prop_rest_without build_request_def and_then_cases)

text \<open>
  Claim C4.  For \<open>volkern_update_lead\<close>, \<open>volkern_update_cita\<close>, \<open>volkern_create_task\<close>,
  \<open>volkern_create_interaction\<close> and \<open>volkern_create_note\<close>, with the identifier key, the path
  before and after the identifier, and the method of each: when the identifier converts to
  the string \<open>s\<close> (\<open>undefined\<close> when it is missing), the call has the path with \<open>s\<close> in it,
  that method, and as its body the argument object without the identifier key; when it does
  not convert, the \<open>TypeError\<close> is thrown and there is no call.  The identifier key is not
  a key of the body, every other property is in the body with its value, and the request
  given to \<open>fetch\<close> carries that body serialised.
\<close>

theorem identifier_stripped:
  assumes "(nm, key, pre, suf, m) \<in> set
      [(''volkern_update_lead'', ''leadId'', ''/leads/'', [], ''PATCH''),
       (''volkern_update_cita'', ''citaId'', ''/citas/'', [], ''PATCH''),
       (''volkern_create_task'', ''leadId'', ''/leads/'', ''/tasks'', ''POST''),
       (''volkern_create_interaction'', ''leadId'', ''/leads/'', ''/interactions'', ''POST''),
       (''volkern_create_note'', ''leadId'', ''/leads/'', ''/notes'', ''POST'')]"
  shows "handleToolCall_args nm (Some args) =
           (case js_String (get_prop args key) of
              Inl e \<Rightarrow> Inl e
            | Inr s \<Rightarrow> Inr \<lparr>call_endpoint = pre @ s @ suf, call_method = Some m,
                            call_body = Some (rest_without key args)\<rparr>)
         \<and> key \<notin> fst ` set (rest_without key args)
         \<and> get_prop (rest_without key args) key = None
         \<and> (\<forall>k. k \<noteq> key \<longrightarrow> get_prop (rest_without key args) k = get_prop args k)
         \<and> (\<forall>s. build_request cfg (pre @ s @ suf) (Some m) (Some (rest_without key args))
               = \<lparr>url = VOLKERN_API_URL cfg @ pre @ s @ suf, http_method = m,
                  headers = [(''Authorization'', ''Bearer '' @ VOLKERN_API_KEY cfg),
                             (''Content-Type'', ''application/json'')],
                  http_body = Some (JSON_stringify (JObject (rest_without key args)))\<rparr>)"
proof -
  from assms have
     "(nm = ''volkern_update_lead'' \<and> key = ''leadId'' \<and> pre = ''/leads/'' \<and> suf = []
        \<and> m = ''PATCH'')
      \<or> (nm = ''volkern_update_cita'' \<and> key = ''citaId'' \<and> pre = ''/citas/'' \<and> suf = []
        \<and> m = ''PATCH'')
      \<or> (nm = ''volkern_create_task'' \<and> key = ''leadId'' \<and> pre = ''/leads/''
        \<and> suf = ''/tasks'' \<and> m = ''POST'')
      \<or> (nm = ''volkern_create_interaction'' \<and> key = ''leadId'' \<and> pre = ''/leads/''
        \<and> suf = ''/interactions'' \<and> m = ''POST'')
      \<or> (nm = ''volkern_create_note'' \<and> key = ''leadId'' \<and> pre = ''/leads/''
        \<and> suf = ''/notes'' \<and> m = ''POST'')"
    by simp
  then show ?thesis
  proof (elim disjE conjE)
    assume "nm = ''volkern_update_lead''" "key = ''leadId''" "pre = ''/leads/''" "suf = []"
      "m = ''PATCH''"
    then show ?thesis
      using stripped_call [of nm args key pre suf m cfg] by (simp add: strip_calls(1))
  next
    assume "nm = ''volkern_update_cita''" "key = ''citaId''" "pre = ''/citas/''" "suf = []"
      "m = ''PATCH''"
    then show ?thesis
      using stripped_call [of nm args key pre suf m cfg] by (simp add: strip_calls(2))
  next
    assume "nm = ''volkern_create_task''" "key = ''leadId''" "pre = ''/leads/''"
      "suf = ''/tasks''" "m = ''POST''"
    then show ?thesis
      using stripped_call [of nm args key pre suf m cfg] by (simp add: strip_calls(3))
  next
    assume "nm = ''volkern_create_interaction''" "key = ''leadId''" "pre = ''/leads/''"
      "suf = ''/interactions''" "m = ''POST''"
    then show ?thesis
      using stripped_call [of nm args key pre suf m cfg] by (simp add: strip_calls(4))
  next
    assume "nm = ''volkern_create_note''" "key = ''leadId''" "pre = ''/leads/''"
      "suf = ''/notes''" "m = ''POST''"
    then show ?thesis
      using stripped_call [of nm args key pre suf m cfg] by (simp add: strip_calls(5))
  qed
qed

text \<open>\<open>volkern_update_lead\<close> with \<open>{leadId: "abc123", nombre: "X"}\<close>: \<open>PATCH\<close> to
  \<open>/leads/abc123\<close> with the body \<open>{"nombre":"X"}\<close>.\<close>

theorem identifier_stripped_witness:
  "(''volkern_update_lead'', ''leadId'', ''/leads/'', [], ''PATCH'') \<in> set
      [(''volkern_update_lead'', ''leadId'', ''/leads/'', [], ''PATCH''),
       (''volkern_update_cita'', ''citaId'', ''/citas/'', [], ''PATCH''),
       (''volkern_create_task'', ''leadId'', ''/leads/'', ''/tasks'', ''POST''),
       (''volkern_create_interaction'', ''leadId'', ''/leads/'', ''/interactions'', ''POST''),
       (''volkern_create_note'', ''leadId'', ''/leads/'', ''/notes'', ''POST'')]
   \<and> handleToolCall_args ''volkern_update_lead''
        (Some [(''leadId'', JString ''abc123''), (''nombre'', JString ''X'')])
      = Inr \<lparr>call_endpoint = ''/leads/abc123'', call_method = Some ''PATCH'',
             call_body = Some [(''nombre'', JString ''X'')]\<rparr>
   \<and> build_request \<lparr>VOLKERN_API_URL = ''https://volkern.app/api'', VOLKERN_API_KEY = ''k''\<rparr>
        ''/leads/abc123'' (Some ''PATCH'') (Some [(''nombre'', JString ''X'')])
      = \<lparr>url = ''https://volkern.app/api/leads/abc123'', http_method = ''PATCH'',
         headers = [(''Authorization'', ''Bearer k''), (''Content-Type'', ''application/json'')],
         http_body = Some (''{'' @ [CHR 0x22] @ ''nombre'' @ [CHR 0x22] @ '':'' @ [CHR 0x22]
                           @ ''X'' @ [CHR 0x22] @ ''}'')\<rparr>"
proof -
  let ?cfg = "\<lparr>VOLKERN_API_URL = ''https://volkern.app/api'', VOLKERN_API_KEY = ''k''\<rparr>"
  let ?args = "[(''leadId'', JString ''abc123''), (''nombre'', JString ''X'')]"
  have mem: "(''volkern_update_lead'', ''leadId'', ''/leads/'', [], ''PATCH'') \<in> set
      [(''volkern_update_lead'', ''leadId'', ''/leads/'', [], ''PATCH''),
       (''volkern_update_cita'', ''citaId'', ''/citas/'', [], ''PATCH''),
       (''volkern_create_task'', ''leadId'', ''/leads/'', ''/tasks'', ''POST''),
       (''volkern_create_interaction'', ''leadId'', ''/leads/'', ''/interactions'', ''POST''),
       (''volkern_create_note'', ''leadId'', ''/leads/'', ''/notes'', ''POST'')]"
    by simp
  have rest: "rest_without ''leadId'' ?args = [(''nombre'', JString ''X'')]"
    by (simp add: rest_without_def)
  have id: "js_String (get_prop ?args ''leadId'') = Inr ''abc123''"
    by (simp add: js_String_def get_prop_def)
  have str: "JSON_stringify (JObject [(''nombre'', JString ''X'')])
      = ''{'' @ [CHR 0x22] @ ''nombre'' @ [CHR 0x22] @ '':'' @ [CHR 0x22] @ ''X'' @ [CHR 0x22] @ ''}''"
    by (simp add: JSON_stringify_def quote_def quote_char_def)
  note inst = identifier_stripped [OF mem, of ?args ?cfg, unfolded rest id]
  from inst have call: "handleToolCall_args ''volkern_update_lead'' (Some ?args)
      = Inr \<lparr>call_endpoint = ''/leads/abc123'', call_method = Some ''PATCH'',
             call_body = Some [(''nombre'', JString ''X'')]\<rparr>"
    by simp
  from inst have "\<forall>s. build_request ?cfg (''/leads/'' @ s @ []) (Some ''PATCH'')
        (Some [(''nombre'', JString ''X'')])
      = \<lparr>url = VOLKERN_API_URL ?cfg @ ''/leads/'' @ s @ [], http_method = ''PATCH'',
         headers = [(''Authorization'', ''Bearer '' @ VOLKERN_API_KEY ?cfg),
                    (''Content-Type'', ''application/json'')],
         http_body = Some (JSON_stringify (JObject [(''nombre'', JString ''X'')]))\<rparr>"
    by (elim conjE)
  then have "build_request ?cfg (''/leads/'' @ ''abc123'' @ []) (Some ''PATCH'')
        (Some [(''nombre'', JString ''X'')])
      = \<lparr>url = VOLKERN_API_URL ?cfg @ ''/leads/'' @ ''abc123'' @ [], http_method = ''PATCH'',
         headers = [(''Authorization'', ''Bearer '' @ VOLKERN_API_KEY ?cfg),
                    (''Content-Type'', ''application/json'')],
         http_body = Some (JSON_stringify (JObject [(''nombre'', JString ''X'')]))\<rparr>"
    by (rule spec)
  with mem call str show ?thesis by simp
qed

subsection \<open>Query strings\<close>

lemma and_then_Inr [simp]: "and_then x Inr = x"
  by (cases x) simp_all

lemma truthy_supplied: "truthy v \<Longrightarrow> \<exists>x. v = Some x"
  by (cases v) auto

lemma append_if_truthy_Some:
  "append_if_truthy (Some args) key ps =
     (if truthy (get_prop args key)
      then and_then (js_String (get_prop args key)) (\<lambda>s. Inr (ps @ [(key, s)]))
      else Inr ps)"
  by (simp add: append_if_truthy_def params_append_def)

lemma append_if_defined_Some:
  "append_if_defined (Some args) key ps =
     (if get_prop args key \<noteq> None
      then and_then (js_String (get_prop args key)) (\<lambda>s. Inr (ps @ [(key, s)]))
      else Inr ps)"
  by (simp add: append_if_defined_def params_append_def)

lemma list_params_fold:
  "list_leads_params args
     = append_all_truthy args [''estado'', ''canal'', ''search'', ''page'', ''limit''] []"
  "list_citas_params args
     = append_all_truthy args [''estado'', ''tipo'', ''fecha'', ''fechaInicio'', ''fechaFin''] []"
  "list_conversaciones_params args
     = append_all_truthy args [''leadId'', ''page'', ''limit''] []"
  by (simp_all add: list_leads_params_def list_citas_params_def list_conversaciones_params_def
      and_then_cases split: sum.splits)

lemma append_all_truthy_result:
  assumes "append_all_truthy (Some args) ks ps = Inr ps'"
  shows "\<exists>qs. ps' = ps @ qs
           \<and> map fst qs = filter (\<lambda>k. truthy (get_prop args k)) ks
           \<and> (\<forall>(k, s) \<in> set qs. \<exists>v. get_prop args k = Some v \<and> toString v = Inr s)"
  using assms
proof (induction ks arbitrary: ps)
  case Nil
  then show ?case by simp
next
  case (Cons k ks)
  show ?case
  proof (cases "truthy (get_prop args k)")
    case False
    with Cons.prems have "append_all_truthy (Some args) ks ps = Inr ps'"
      by (simp add: append_if_truthy_Some)
    from Cons.IH [OF this] False show ?thesis
      by simp
  next
    case True
    then obtain v where v: "get_prop args k = Some v"
      using truthy_supplied by blast
    from Cons.prems True v obtain s where s: "toString v = Inr s"
      and run: "append_all_truthy (Some args) ks (ps @ [(k, s)]) = Inr ps'"
      by (cases "toString v") (simp_all add: append_if_truthy_Some js_String_def)
    from Cons.IH [OF run] obtain qs where qs: "ps' = (ps @ [(k, s)]) @ qs"
      "map fst qs = filter (\<lambda>k. truthy (get_prop args k)) ks"
      "\<forall>(k, s) \<in> set qs. \<exists>v. get_prop args k = Some v \<and> toString v = Inr s"
      by blast
    show ?thesis
    proof (intro exI [of _ "(k, s) # qs"] conjI)
      show "ps' = ps @ (k, s) # qs"
        using qs(1) by simp
      show "map fst ((k, s) # qs) = filter (\<lambda>k. truthy (get_prop args k)) (k # ks)"
        using qs(2) True by simp
      show "\<forall>(k, s) \<in> set ((k, s) # qs). \<exists>v. get_prop args k = Some v \<and> toString v = Inr s"
        using qs(3) v s by simp
    qed
  qed
qed

lemma append_all_truthy_fail:
  assumes "append_all_truthy (Some args) ks ps = Inl e"
  shows "\<exists>k v. k \<in> set ks \<and> get_prop args k = Some v \<and> truthy (Some v) \<and> toString v = Inl e"
  using assms
proof (induction ks arbitrary: ps)
  case Nil
  then show ?case by simp
next
  case (Cons k ks)
  show ?case
  proof (cases "truthy (get_prop args k)")
    case False
    with Cons.prems have "append_all_truthy (Some args) ks ps = Inl e"
      by (simp add: append_if_truthy_Some)
    from Cons.IH [OF this] show ?thesis
      by auto
  next
    case True
    then obtain v where v: "get_prop args k = Some v"
      using truthy_supplied by blast
    show ?thesis
    proof (cases "toString v")
      case (Inl e')
      with Cons.prems True v have "e' = e"
        by (simp add: append_if_truthy_Some js_String_def)
      with Inl v True show ?thesis
        by auto
    next
      case (Inr s)
      with Cons.prems True v have "append_all_truthy (Some args) ks (ps @ [(k, s)]) = Inl e"
        by (simp add: append_if_truthy_Some js_String_def)
      from Cons.IH [OF this] show ?thesis
        by auto
    qed
  qed
qed



subsection \<open>Reading one lead\<close>

text \<open>
  Claim C7.  \<open>volkern_get_lead\<close> with \<open>{leadId: "abc123"}\<close> calls \<open>volkernRequest\<close> with the
  endpoint \<open>/leads/abc123\<close> and neither a method nor a body; the request given to \<open>fetch\<close>
  has the method \<open>GET\<close> and no body.  In general a request whose method is \<open>GET\<close> has no
  body, whatever body \<open>volkernRequest\<close> was given.
\<close>

theorem get_lead_request:
  "handleToolCall_args ''volkern_get_lead'' (Some [(''leadId'', JString ''abc123'')])
     = Inr \<lparr>call_endpoint = ''/leads/abc123'', call_method = None, call_body = None\<rparr>
   \<and> build_request cfg ''/leads/abc123'' None None
     = \<lparr>url = VOLKERN_API_URL cfg @ ''/leads/abc123'', http_method = ''GET'',
        headers = [(''Authorization'', ''Bearer '' @ VOLKERN_API_KEY cfg),
                   (''Content-Type'', ''application/json'')],
        http_body = None\<rparr>
   \<and> snd (handleToolCall cfg R log ''volkern_get_lead'' (Some [(''leadId'', JString ''abc123'')]))
     = log @ [build_request cfg ''/leads/abc123'' None None]
   \<and> (http_method (build_request cfg endpoint m b) = ''GET''
        \<longrightarrow> http_body (build_request cfg endpoint m b) = None)"
proof -
  have call: "handleToolCall_args ''volkern_get_lead'' (Some [(''leadId'', JString ''abc123'')])
     = Inr \<lparr>call_endpoint = ''/leads/abc123'', call_method = None, call_body = None\<rparr>"
    by (simp add: path_calls js_String_def get_prop_def)
  have get: "http_method (build_request cfg endpoint m b) = ''GET''
        \<longrightarrow> http_body (build_request cfg endpoint m b) = None"
    by (simp add: build_request_def Let_def split: option.splits)
  show ?thesis
    using get by (simp add: call handleToolCall_def volkernRequest_log) (simp add: build_request_def)
qed

theorem get_lead_request_witness:
  "http_method (build_request \<lparr>VOLKERN_API_URL = ''https://volkern.app/api'', VOLKERN_API_KEY = ''k''\<rparr>
       ''/leads'' (Some ''GET'') (Some [(''nombre'', JString ''Juan'')])) = ''GET''
   \<and> http_body (build_request \<lparr>VOLKERN_API_URL = ''https://volkern.app/api'', VOLKERN_API_KEY = ''k''\<rparr>
       ''/leads'' (Some ''GET'') (Some [(''nombre'', JString ''Juan'')])) = None"
proof -
  let ?cfg = "\<lparr>VOLKERN_API_URL = ''https://volkern.app/api'', VOLKERN_API_KEY = ''k''\<rparr>"
  let ?req = "build_request ?cfg ''/leads'' (Some ''GET'') (Some [(''nombre'', JString ''Juan'')])"
  have m: "http_method ?req = ''GET''"
    by (simp add: build_request_def)
  have "http_method ?req = ''GET'' \<longrightarrow> http_body ?req = None"
    by (rule get_lead_request [THEN conjunct2, THEN conjunct2, THEN conjunct2])
  with m show ?thesis by simp
qed

subsection \<open>Completing a task\<close>

lemma completada_string:
  "JSON_stringify (JObject [(''completada'', JBool True)])
     = ''{'' @ [CHR 0x22] @ ''completada'' @ [CHR 0x22] @ '':true}''"
  by (simp add: JSON_stringify_def quote_def quote_char_def)

text \<open>
  Claim C10, as stated, fails: the arguments \<open>{taskId: {toString: "t9"}}\<close> of
  \<open>volkern_complete_task\<close> contain \<open>taskId\<close>, but the template literal cannot convert the
  value to a string; the \<open>TypeError\<close> is thrown, the handler returns the failure envelope,
  and there is no outgoing request (the log stays empty).
\<close>

theorem complete_task_unconvertible:
  "get_prop [(''taskId'', JObject [(''toString'', JString ''t9'')])] ''taskId''
      = Some (JObject [(''toString'', JString ''t9'')])
   \<and> handleToolCall_args ''volkern_complete_task''
        (Some [(''taskId'', JObject [(''toString'', JString ''t9'')])])
      = Inl (TypeError CannotConvert)
   \<and> callToolHandler v8_message example_config
        (remote_always (Resolved (Response 200 (Inr (JObject []))))) []
        ''volkern_complete_task'' (Some [(''taskId'', JObject [(''toString'', JString ''t9'')])])
      = (\<lparr>content = [\<lparr>content_type = ''text'',
                       content_text = ''Error: Cannot convert object to primitive value''\<rparr>],
          isError = Some True\<rparr>, [])"
proof -
  have call: "handleToolCall_args ''volkern_complete_task''
        (Some [(''taskId'', JObject [(''toString'', JString ''t9'')])])
      = Inl (TypeError CannotConvert)"
    by (simp add: path_calls js_String_def get_prop_def)
  show ?thesis
    by (simp add: call callToolHandler_def handleToolCall_def errorMessage_def v8_message_def)
       (simp add: get_prop_def)
qed

text \<open>
  Claim C10, amended.  When the arguments of \<open>volkern_complete_task\<close> hold \<open>taskId\<close> with
  a value \<open>v\<close> that converts to the string \<open>s\<close>, the call is \<open>PATCH\<close> to \<open>/tasks/s\<close> with the
  body \<open>{"completada":true}\<close>.  When \<open>v\<close> does not convert, the \<open>TypeError\<close> of the
  conversion is thrown and \<open>fetch\<close> is not called.  The outcome is a function of \<open>v\<close> alone: two argument objects
  with the same \<open>taskId\<close> give the same outcome, so no other argument reaches the path, a
  query or the body.
\<close>

theorem complete_task_request:
  assumes "get_prop args ''taskId'' = Some v"
  shows "(toString v = Inr s \<longrightarrow>
           handleToolCall_args ''volkern_complete_task'' (Some args)
             = Inr \<lparr>call_endpoint = ''/tasks/'' @ s, call_method = Some ''PATCH'',
                    call_body = Some [(''completada'', JBool True)]\<rparr>
           \<and> snd (handleToolCall cfg R log ''volkern_complete_task'' (Some args))
             = log @ [\<lparr>url = VOLKERN_API_URL cfg @ ''/tasks/'' @ s, http_method = ''PATCH'',
                        headers = [(''Authorization'', ''Bearer '' @ VOLKERN_API_KEY cfg),
                                   (''Content-Type'', ''application/json'')],
                        http_body = Some (''{'' @ [CHR 0x22] @ ''completada'' @ [CHR 0x22]
                                          @ '':true}'')\<rparr>])
         \<and> (toString v = Inl e \<longrightarrow>
              e = TypeError CannotConvert
              \<and> handleToolCall cfg R log ''volkern_complete_task'' (Some args) = (Inl e, log))
         \<and> (get_prop args' ''taskId'' = Some v \<longrightarrow>
              handleToolCall_args ''volkern_complete_task'' (Some args')
                = handleToolCall_args ''volkern_complete_task'' (Some args))"
proof (intro conjI impI)
  assume s: "toString v = Inr s"
  with assms show call: "handleToolCall_args ''volkern_complete_task'' (Some args)
             = Inr \<lparr>call_endpoint = ''/tasks/'' @ s, call_method = Some ''PATCH'',
                    call_body = Some [(''completada'', JBool True)]\<rparr>"
    by (simp add: path_calls js_String_def)
  have "build_request cfg (''/tasks/'' @ s) (Some ''PATCH'')
               (Some [(''completada'', JBool True)])
           = \<lparr>url = VOLKERN_API_URL cfg @ ''/tasks/'' @ s, http_method = ''PATCH'',
              headers = [(''Authorization'', ''Bearer '' @ VOLKERN_API_KEY cfg),
                         (''Content-Type'', ''application/json'')],
              http_body = Some (JSON_stringify (JObject [(''completada'', JBool True)]))\<rparr>"
    by (simp add: build_request_def)
  then show "snd (handleToolCall cfg R log ''volkern_complete_task'' (Some args))
             = log @ [\<lparr>url = VOLKERN_API_URL cfg @ ''/tasks/'' @ s, http_method = ''PATCH'',
                        headers = [(''Authorization'', ''Bearer '' @ VOLKERN_API_KEY cfg),
                                   (''Content-Type'', ''application/json'')],
                        http_body = Some (''{'' @ [CHR 0x22] @ ''completada'' @ [CHR 0x22]
                                          @ '':true}'')\<rparr>]"
    by (simp add: handleToolCall_def call volkernRequest_log completada_string)
next
  assume e: "toString v = Inl e"
  from toString_fail [OF e] show "e = TypeError CannotConvert" .
  from assms e
  show "handleToolCall cfg R log ''volkern_complete_task'' (Some args) = (Inl e, log)"
    by (simp add: handleToolCall_def path_calls js_String_def)
next
  assume "get_prop args' ''taskId'' = Some v"
  with assms show "handleToolCall_args ''volkern_complete_task'' (Some args')
                = handleToolCall_args ''volkern_complete_task'' (Some args)"
    by (simp add: path_calls)
qed

theorem complete_task_request_witness:
  "get_prop [(''taskId'', JString ''t9''), (''nota'', JString ''hecho''), (''completada'', JBool False)]
      ''taskId'' = Some (JString ''t9'')
   \<and> toString (JString ''t9'') = Inr ''t9''
   \<and> handleToolCall_args ''volkern_complete_task''
        (Some [(''taskId'', JString ''t9''), (''nota'', JString ''hecho''),
               (''completada'', JBool False)])
      = Inr \<lparr>call_endpoint = ''/tasks/t9'', call_method = Some ''PATCH'',
             call_body = Some [(''completada'', JBool True)]\<rparr>
   \<and> handleToolCall_args ''volkern_complete_task'' (Some [(''taskId'', JString ''t9'')])
      = handleToolCall_args ''volkern_complete_task''
          (Some [(''taskId'', JString ''t9''), (''nota'', JString ''hecho''),
                 (''completada'', JBool False)])"
proof -
  let ?args = "[(''taskId'', JString ''t9''), (''nota'', JString ''hecho''),
                (''completada'', JBool False)]"
  have h: "get_prop ?args ''taskId'' = Some (JString ''t9'')"
    by (simp add: get_prop_def)
  have h': "get_prop [(''taskId'', JString ''t9'')] ''taskId'' = Some (JString ''t9'')"
    by (simp add: get_prop_def)
  have s: "toString (JString ''t9'') = Inr ''t9''"
    by simp
  from complete_task_request [OF h, where s = "''t9''" and args' = "[(''taskId'', JString ''t9'')]"]
    h h' s
  show ?thesis by simp
qed

subsection \<open>Falsy filter values\<close>

lemma append_all_truthy_rest_without:
  assumes "\<not> truthy (get_prop args key)"
  shows "append_all_truthy (Some (rest_without key args)) ks ps
           = append_all_truthy (Some args) ks ps"
proof (induction ks arbitrary: ps)
  case Nil
  show ?case by simp
next
  case (Cons k ks)
  have "append_if_truthy (Some (rest_without key args)) k ps = append_if_truthy (Some args) k ps"
    using assms by (simp add: append_if_truthy_Some get_prop_rest_without)
  then show ?case
    by (simp add: Cons.IH and_then_cases split: sum.splits)
qed

lemma list_params_rest_without:
  assumes "\<not> truthy (get_prop args key)"
  shows "list_leads_params (Some (rest_without key args)) = list_leads_params (Some args)"
    and "list_citas_params (Some (rest_without key args)) = list_citas_params (Some args)"
    and "list_conversaciones_params (Some (rest_without key args))
           = list_conversaciones_params (Some args)"
  by (simp_all only: list_params_fold append_all_truthy_rest_without [OF assms])

text \<open>
  Claim C9.  For \<open>volkern_list_leads\<close>, \<open>volkern_list_citas\<close> and
  \<open>volkern_list_conversaciones\<close>, when a key of the arguments holds the number 0, the empty
  string or \<open>false\<close>, the call is the one made for the arguments without that key.  For
  \<open>volkern_list_servicios\<close>, \<open>activo: false\<close> gives the query \<open>activo=false\<close>.
\<close>

theorem falsy_params_omitted:
  assumes "nm \<in> {''volkern_list_leads'', ''volkern_list_citas'', ''volkern_list_conversaciones''}"
    and "get_prop args key = Some v"
    and "v \<in> {JNum ''0'', JString [], JBool False}"
  shows "handleToolCall_args nm (Some args) = handleToolCall_args nm (Some (rest_without key args))
         \<and> get_prop (rest_without key args) key = None
         \<and> (get_prop args' ''activo'' = Some (JBool False) \<longrightarrow>
              handleToolCall_args ''volkern_list_servicios'' (Some args')
                = Inr \<lparr>call_endpoint = ''/servicios?activo=false'', call_method = None,
                       call_body = None\<rparr>)"
proof -
  from assms(2,3) have falsy: "\<not> truthy (get_prop args key)"
    by auto
  from assms(1) have "nm = ''volkern_list_leads'' \<or> nm = ''volkern_list_citas''
      \<or> nm = ''volkern_list_conversaciones''"
    by simp
  then have same: "handleToolCall_args nm (Some args)
      = handleToolCall_args nm (Some (rest_without key args))"
    by (elim disjE) (simp_all add: query_calls list_params_rest_without [OF falsy])
  have "list_servicios_params (Some args') = Inr [(''activo'', ''false'')]"
    if "get_prop args' ''activo'' = Some (JBool False)"
    using that by (simp add: list_servicios_params_def append_if_defined_Some js_String_def)
  moreover have "params_toString [(''activo'', ''false'')] = ''activo=false''"
    by (simp add: params_toString_def urlencode_def urlencode_byte_def)
  ultimately show ?thesis
    using same by (simp add: get_prop_rest_without query_calls)
qed

text \<open>\<open>page: 0\<close> for \<open>volkern_list_leads\<close>, and \<open>activo: false\<close> for \<open>volkern_list_servicios\<close>.\<close>

theorem falsy_params_omitted_witness:
  "''volkern_list_leads'' \<in> {''volkern_list_leads'', ''volkern_list_citas'',
                               ''volkern_list_conversaciones''}
   \<and> get_prop [(''estado'', JString ''nuevo''), (''page'', JNum ''0'')] ''page'' = Some (JNum ''0'')
   \<and> JNum ''0'' \<in> {JNum ''0'', JString [], JBool False}
   \<and> handleToolCall_args ''volkern_list_leads''
        (Some [(''estado'', JString ''nuevo''), (''page'', JNum ''0'')])
      = handleToolCall_args ''volkern_list_leads'' (Some [(''estado'', JString ''nuevo'')])
   \<and> handleToolCall_args ''volkern_list_leads''
        (Some [(''estado'', JString ''nuevo''), (''page'', JNum ''0'')])
      = Inr \<lparr>call_endpoint = ''/leads?estado=nuevo'', call_method = None, call_body = None\<rparr>
   \<and> get_prop [(''activo'', JBool False)] ''activo'' = Some (JBool False)
   \<and> handleToolCall_args ''volkern_list_servicios'' (Some [(''activo'', JBool False)])
      = Inr \<lparr>call_endpoint = ''/servicios?activo=false'', call_method = None, call_body = None\<rparr>"
proof -
  let ?args = "[(''estado'', JString ''nuevo''), (''page'', JNum ''0'')]"
  have h1: "''volkern_list_leads'' \<in> {''volkern_list_leads'', ''volkern_list_citas'',
                               ''volkern_list_conversaciones''}"
    by simp
  have h2: "get_prop ?args ''page'' = Some (JNum ''0'')"
    by (simp add: get_prop_def)
  have h3: "JNum ''0'' \<in> {JNum ''0'', JString [], JBool False}"
    by simp
  have h4: "get_prop [(''activo'', JBool False)] ''activo'' = Some (JBool False)"
    by (simp add: get_prop_def)
  have less: "rest_without ''page'' ?args = [(''estado'', JString ''nuevo'')]"
    by (simp add: rest_without_def)
  have short: "handleToolCall_args ''volkern_list_leads'' (Some [(''estado'', JString ''nuevo'')])
      = Inr \<lparr>call_endpoint = ''/leads?estado=nuevo'', call_method = None, call_body = None\<rparr>"
    by (simp add: query_calls list_leads_params_def append_if_truthy_Some
        get_prop_def js_String_def params_toString_def urlencode_def urlencode_byte_def)
  from falsy_params_omitted [OF h1 h2 h3, of "[(''activo'', JBool False)]"] h1 h2 h3 h4
  show ?thesis
    by (simp add: less short)
qed

subsection \<open>No validation of the arguments\<close>

lemma js_String_fail:
  assumes "js_String x = Inl e"
  shows "\<exists>v. x = Some v \<and> toString v = Inl e"
  using assms by (cases x) (simp_all add: js_String_def)

lemma and_then_fail:
  assumes "and_then x f = Inl e"
  shows "x = Inl e \<or> (\<exists>v. x = Inr v \<and> f v = Inl e)"
  using assms by (cases x) simp_all

lemma path_call_fail:
  assumes "and_then (js_String (get_prop args key)) (\<lambda>s. Inr (g s)) = Inl e"
  shows "\<exists>k v. get_prop args k = Some v \<and> toString v = Inl e"
  using and_then_fail [OF assms] js_String_fail by fastforce

lemma query_call_fail:
  assumes "and_then (append_all_truthy (Some args) ks []) (\<lambda>ps. Inr (g ps)) = Inl e"
  shows "\<exists>k v. get_prop args k = Some v \<and> toString v = Inl e"
  using and_then_fail [OF assms] append_all_truthy_fail by fastforce

lemma list_servicios_fail:
  assumes "and_then (list_servicios_params (Some args)) (\<lambda>ps. Inr (g ps)) = Inl e"
  shows "\<exists>k v. get_prop args k = Some v \<and> toString v = Inl e"
proof -
  from and_then_fail [OF assms] have "list_servicios_params (Some args) = Inl e"
    by simp
  then have "js_String (get_prop args ''activo'') = Inl e"
    by (simp add: list_servicios_params_def append_if_defined_Some and_then_cases
        split: if_splits sum.splits)
  from js_String_fail [OF this] show ?thesis
    by blast
qed

lemma check_disponibilidad_fail:
  assumes "and_then (check_disponibilidad_params (Some args)) (\<lambda>ps. Inr (g ps)) = Inl e"
  shows "\<exists>k v. get_prop args k = Some v \<and> toString v = Inl e"
proof -
  from and_then_fail [OF assms] have "check_disponibilidad_params (Some args) = Inl e"
    by simp
  then have "js_String (get_prop args ''fecha'') = Inl e
      \<or> js_String (get_prop args ''duracion'') = Inl e"
    by (simp add: check_disponibilidad_params_def append_if_truthy_Some and_then_cases
        split: if_splits sum.splits)
  with js_String_fail show ?thesis
    by blast
qed

text \<open>A registered tool fails before the request only where a value that the arguments
  hold does not convert to a string.\<close>

lemma failure_cause:
  assumes "nm \<in> set tool_names" and "handleToolCall_args nm (Some args) = Inl e"
  shows "\<exists>k v. get_prop args k = Some v \<and> toString v = Inl e"
proof -
  from assms(1) have "nm = ''volkern_list_leads'' \<or> nm = ''volkern_get_lead''
      \<or> nm = ''volkern_create_lead'' \<or> nm = ''volkern_update_lead''
      \<or> nm = ''volkern_check_disponibilidad'' \<or> nm = ''volkern_list_citas''
      \<or> nm = ''volkern_create_cita'' \<or> nm = ''volkern_update_cita''
      \<or> nm = ''volkern_cita_accion'' \<or> nm = ''volkern_list_servicios''
      \<or> nm = ''volkern_get_servicio'' \<or> nm = ''volkern_create_task''
      \<or> nm = ''volkern_list_tasks'' \<or> nm = ''volkern_complete_task''
      \<or> nm = ''volkern_send_whatsapp'' \<or> nm = ''volkern_list_conversaciones''
      \<or> nm = ''volkern_list_interactions'' \<or> nm = ''volkern_create_interaction''
      \<or> nm = ''volkern_list_notes'' \<or> nm = ''volkern_create_note''"
    by (simp add: tool_names_def tools_def)
  then show ?thesis
  proof (elim disjE)
    assume "nm = ''volkern_list_leads''"
    with assms(2) show ?thesis
      by (simp only: query_calls list_params_fold) (rule query_call_fail)
  next
    assume "nm = ''volkern_get_lead''"
    with assms(2) show ?thesis
      by (simp only: path_calls) (rule path_call_fail)
  next
    assume "nm = ''volkern_create_lead''"
    with assms(2) show ?thesis
      by (simp add: body_calls)
  next
    assume "nm = ''volkern_update_lead''"
    with assms(2) show ?thesis
      by (simp only: strip_calls) (rule path_call_fail)
  next
    assume "nm = ''volkern_check_disponibilidad''"
    with assms(2) show ?thesis
      by (simp only: query_calls) (rule check_disponibilidad_fail)
  next
    assume "nm = ''volkern_list_citas''"
    with assms(2) show ?thesis
      by (simp only: query_calls list_params_fold) (rule query_call_fail)
  next
    assume "nm = ''volkern_create_cita''"
    with assms(2) show ?thesis
      by (simp add: body_calls)
  next
    assume "nm = ''volkern_update_cita''"
    with assms(2) show ?thesis
      by (simp only: strip_calls) (rule path_call_fail)
  next
    assume "nm = ''volkern_cita_accion''"
    with assms(2) show ?thesis
      by (simp add: body_calls)
  next
    assume "nm = ''volkern_list_servicios''"
    with assms(2) show ?thesis
      by (simp only: query_calls) (rule list_servicios_fail)
  next
    assume "nm = ''volkern_get_servicio''"
    with assms(2) show ?thesis
      by (simp only: path_calls) (rule path_call_fail)
  next
    assume "nm = ''volkern_create_task''"
    with assms(2) show ?thesis
      by (simp only: strip_calls) (rule path_call_fail)
  next
    assume "nm = ''volkern_list_tasks''"
    with assms(2) show ?thesis
      by (simp only: path_calls) (rule path_call_fail)
  next
    assume "nm = ''volkern_complete_task''"
    with assms(2) show ?thesis
      by (simp only: path_calls) (rule path_call_fail)
  next
    assume "nm = ''volkern_send_whatsapp''"
    with assms(2) show ?thesis
      by (simp add: body_calls)
  next
    assume "nm = ''volkern_list_conversaciones''"
    with assms(2) show ?thesis
      by (simp only: query_calls list_params_fold) (rule query_call_fail)
  next
    assume "nm = ''volkern_list_interactions''"
    with assms(2) show ?thesis
      by (simp only: path_calls) (rule path_call_fail)
  next
    assume "nm = ''volkern_create_interaction''"
    with assms(2) show ?thesis
      by (simp only: strip_calls) (rule path_call_fail)
  next
    assume "nm = ''volkern_list_notes''"
    with assms(2) show ?thesis
      by (simp only: path_calls) (rule path_call_fail)
  next
    assume "nm = ''volkern_create_note''"
    with assms(2) show ?thesis
      by (simp only: strip_calls) (rule path_call_fail)
  qed
qed





subsection \<open>The argument object is not changed\<close>

lemma store_view:
  assumes "a < length h"
  shows "map_sum id deref_call (handleToolCall_store nm h (Some a))
           = handleToolCall_args nm (Some (h ! a))"
  using assms
  by (simp add: handleToolCall_args_def handleToolCall_store_def alloc_def deref_call_def
      destructure_def Let_def nth_append map_sum_and_then)

lemma store_shape:
  assumes "handleToolCall_store nm h (Some a) = Inr (c, h')"
  shows "(h' = h \<and> (st_body c = None \<or> st_body c = Some a))
         \<or> (\<exists>data. h' = h @ [data] \<and> st_body c = Some (length h))"
  using assms
  by (auto simp: handleToolCall_store_def alloc_def destructure_def Let_def and_then_cases
      split: if_splits sum.splits)

lemma store_fresh:
  assumes "nm \<in> {''volkern_update_lead'', ''volkern_update_cita'', ''volkern_create_task'',
                  ''volkern_create_interaction'', ''volkern_create_note''}"
    and "handleToolCall_store nm h (Some a) = Inr (c, h')"
  shows "st_body c = Some (length h) \<and> length h' = Suc (length h)"
proof -
  from assms(1) have "nm = ''volkern_update_lead'' \<or> nm = ''volkern_update_cita''
      \<or> nm = ''volkern_create_task'' \<or> nm = ''volkern_create_interaction''
      \<or> nm = ''volkern_create_note''"
    by simp
  then show ?thesis
    using assms(2)
    by (elim disjE)
       (auto simp: handleToolCall_store_def alloc_def destructure_def Let_def and_then_cases
          split: sum.splits)
qed

lemma body_of_call:
  assumes "and_then x (\<lambda>s. Inr \<lparr>call_endpoint = f s, call_method = m, call_body = b\<rparr>) = Inr c"
  shows "call_body c = b"
  using assms by (cases x) auto

lemma body_keys:
  assumes "handleToolCall_args nm (Some args) = Inr c" and "call_body c = Some body"
    and "nm \<noteq> ''volkern_complete_task''"
  shows "body = args \<or> (\<exists>key. body = rest_without key args)"
proof (cases "nm \<in> set tool_names")
  case False
  from handleToolCall_unknown [OF this] assms(1) show ?thesis
    by simp
next
  case True
  then have "nm = ''volkern_list_leads'' \<or> nm = ''volkern_get_lead''
      \<or> nm = ''volkern_create_lead'' \<or> nm = ''volkern_update_lead''
      \<or> nm = ''volkern_check_disponibilidad'' \<or> nm = ''volkern_list_citas''
      \<or> nm = ''volkern_create_cita'' \<or> nm = ''volkern_update_cita''
      \<or> nm = ''volkern_cita_accion'' \<or> nm = ''volkern_list_servicios''
      \<or> nm = ''volkern_get_servicio'' \<or> nm = ''volkern_create_task''
      \<or> nm = ''volkern_list_tasks'' \<or> nm = ''volkern_complete_task''
      \<or> nm = ''volkern_send_whatsapp'' \<or> nm = ''volkern_list_conversaciones''
      \<or> nm = ''volkern_list_interactions'' \<or> nm = ''volkern_create_interaction''
      \<or> nm = ''volkern_list_notes'' \<or> nm = ''volkern_create_note''"
    by (simp add: tool_names_def tools_def)
  with assms(3) show ?thesis
  proof (elim disjE)
    assume "nm = ''volkern_list_leads''"
    with assms(1) have "call_body c = None"
      by (simp only: query_calls) (rule body_of_call)
    with assms(2) show ?thesis by simp
  next
    assume "nm = ''volkern_get_lead''"
    with assms(1) have "call_body c = None"
      by (simp only: path_calls) (rule body_of_call)
    with assms(2) show ?thesis by simp
  next
    assume "nm = ''volkern_create_lead''"
    with assms(1,2) show ?thesis
      by (auto simp: body_calls)
  next
    assume "nm = ''volkern_update_lead''"
    with assms(1) have "call_body c = Some (rest_without ''leadId'' args)"
      by (simp only: strip_calls) (rule body_of_call)
    with assms(2) show ?thesis by auto
  next
    assume "nm = ''volkern_check_disponibilidad''"
    with assms(1) have "call_body c = None"
      by (simp only: query_calls) (rule body_of_call)
    with assms(2) show ?thesis by simp
  next
    assume "nm = ''volkern_list_citas''"
    with assms(1) have "call_body c = None"
      by (simp only: query_calls) (rule body_of_call)
    with assms(2) show ?thesis by simp
  next
    assume "nm = ''volkern_create_cita''"
    with assms(1,2) show ?thesis
      by (auto simp: body_calls)
  next
    assume "nm = ''volkern_update_cita''"
    with assms(1) have "call_body c = Some (rest_without ''citaId'' args)"
      by (simp only: strip_calls) (rule body_of_call)
    with assms(2) show ?thesis by auto
  next
    assume "nm = ''volkern_cita_accion''"
    with assms(1,2) show ?thesis
      by (auto simp: body_calls)
  next
    assume "nm = ''volkern_list_servicios''"
    with assms(1) have "call_body c = None"
      by (simp only: query_calls) (rule body_of_call)
    with assms(2) show ?thesis by simp
  next
    assume "nm = ''volkern_get_servicio''"
    with assms(1) have "call_body c = None"
      by (simp only: path_calls) (rule body_of_call)
    with assms(2) show ?thesis by simp
  next
    assume "nm = ''volkern_create_task''"
    with assms(1) have "call_body c = Some (rest_without ''leadId'' args)"
      by (simp only: strip_calls) (rule body_of_call)
    with assms(2) show ?thesis by auto
  next
    assume "nm = ''volkern_list_tasks''"
    with assms(1) have "call_body c = None"
      by (simp only: path_calls) (rule body_of_call)
    with assms(2) show ?thesis by simp
  next
    assume "nm = ''volkern_complete_task''"
    with assms(3) show ?thesis by simp
  next
    assume "nm = ''volkern_send_whatsapp''"
    with assms(1,2) show ?thesis
      by (auto simp: body_calls)
  next
    assume "nm = ''volkern_list_conversaciones''"
    with assms(1) have "call_body c = None"
      by (simp only: query_calls) (rule body_of_call)
    with assms(2) show ?thesis by simp
  next
    assume "nm = ''volkern_list_interactions''"
    with assms(1) have "call_body c = None"
      by (simp only: path_calls) (rule body_of_call)
    with assms(2) show ?thesis by simp
  next
    assume "nm = ''volkern_create_interaction''"
    with assms(1) have "call_body c = Some (rest_without ''leadId'' args)"
      by (simp only: strip_calls) (rule body_of_call)
    with assms(2) show ?thesis by auto
  next
    assume "nm = ''volkern_list_notes''"
    with assms(1) have "call_body c = None"
      by (simp only: path_calls) (rule body_of_call)
    with assms(2) show ?thesis by simp
  next
    assume "nm = ''volkern_create_note''"
    with assms(1) have "call_body c = Some (rest_without ''leadId'' args)"
      by (simp only: strip_calls) (rule body_of_call)
    with assms(2) show ?thesis by auto
  qed
qed

lemma append_all_truthy_supplied:
  assumes "append_all_truthy (Some args) ks [] = Inr ps" and "get_prop args k = None"
  shows "k \<notin> fst ` set ps"
proof -
  from append_all_truthy_result [OF assms(1)]
  have "\<forall>(k, s) \<in> set ps. \<exists>v. get_prop args k = Some v \<and> toString v = Inr s"
    by auto
  with assms(2) show ?thesis
    by fastforce
qed

lemma params_supplied:
  assumes "get_prop args k = None"
  shows "list_leads_params (Some args) = Inr ps \<longrightarrow> k \<notin> fst ` set ps"
    and "list_citas_params (Some args) = Inr ps \<longrightarrow> k \<notin> fst ` set ps"
    and "list_conversaciones_params (Some args) = Inr ps \<longrightarrow> k \<notin> fst ` set ps"
    and "list_servicios_params (Some args) = Inr ps \<longrightarrow> k \<notin> fst ` set ps"
    and "check_disponibilidad_params (Some args) = Inr ps \<longrightarrow> k \<noteq> ''fecha''
           \<longrightarrow> k \<notin> fst ` set ps"
proof -
  show "list_leads_params (Some args) = Inr ps \<longrightarrow> k \<notin> fst ` set ps"
    "list_citas_params (Some args) = Inr ps \<longrightarrow> k \<notin> fst ` set ps"
    "list_conversaciones_params (Some args) = Inr ps \<longrightarrow> k \<notin> fst ` set ps"
    using append_all_truthy_supplied [OF _ assms]
    by (simp_all only: list_params_fold) blast+
  show "list_servicios_params (Some args) = Inr ps \<longrightarrow> k \<notin> fst ` set ps"
    using assms
    by (auto simp: list_servicios_params_def append_if_defined_Some and_then_cases
        split: if_splits sum.splits)
  show "check_disponibilidad_params (Some args) = Inr ps \<longrightarrow> k \<noteq> ''fecha''
           \<longrightarrow> k \<notin> fst ` set ps"
    using assms
    by (auto simp: check_disponibilidad_params_def append_if_truthy_Some and_then_cases
        params_append_def split: if_splits sum.splits)
qed

text \<open>
  Claim C8.  Let the store \<open>h\<close> hold the argument object at the address \<open>a\<close>.
  \<^item> Where the switch returns a call and the store \<open>h'\<close>: every object of \<open>h\<close>, the argument
    object among them, is in \<open>h'\<close> unchanged at its address; the call, with its body read
    from \<open>h'\<close>, is the call computed from the argument object alone; for the five tools that
    strip an identifier the body is a new object, at an address that \<open>h\<close> does not have.
  \<^item> A missing field is tolerated: the switch throws only for a name that is not
    registered, or where a value that the arguments hold does not convert to a string.
  \<^item> A key that the arguments do not hold is not a key of the body (the literal body of
    \<open>volkern_complete_task\<close> apart) nor a parameter of a query (the required \<open>fecha\<close> of
    \<open>volkern_check_disponibilidad\<close> apart).
\<close>

theorem arguments_not_mutated:
  assumes "a < length h"
  shows "(handleToolCall_store nm h (Some a) = Inr (c, h') \<longrightarrow>
        take (length h) h' = h \<and> h' ! a = h ! a
        \<and> handleToolCall_args nm (Some (h ! a)) = Inr (deref_call (c, h'))
        \<and> (nm \<in> {''volkern_update_lead'', ''volkern_update_cita'', ''volkern_create_task'',
                   ''volkern_create_interaction'', ''volkern_create_note''} \<longrightarrow>
             st_body c = Some (length h) \<and> length h' = Suc (length h))
        \<and> (nm \<noteq> ''volkern_complete_task'' \<and> call_body (deref_call (c, h')) = Some body
             \<and> get_prop (h ! a) k = None \<longrightarrow> get_prop body k = None))
   \<and> (handleToolCall_store nm h (Some a) = Inl e \<longrightarrow>
        nm \<notin> set tool_names
        \<or> (\<exists>k' v. get_prop (h ! a) k' = Some v \<and> toString v = Inl e))
   \<and> (get_prop (h ! a) k = None \<longrightarrow>
        (list_leads_params (Some (h ! a)) = Inr ps \<longrightarrow> k \<notin> fst ` set ps)
        \<and> (list_citas_params (Some (h ! a)) = Inr ps \<longrightarrow> k \<notin> fst ` set ps)
        \<and> (list_servicios_params (Some (h ! a)) = Inr ps \<longrightarrow> k \<notin> fst ` set ps)
        \<and> (list_conversaciones_params (Some (h ! a)) = Inr ps \<longrightarrow> k \<notin> fst ` set ps)
        \<and> (check_disponibilidad_params (Some (h ! a)) = Inr ps \<longrightarrow> k \<noteq> ''fecha''
             \<longrightarrow> k \<notin> fst ` set ps))"
proof (intro conjI impI)
  assume r: "handleToolCall_store nm h (Some a) = Inr (c, h')"
  with store_shape [of nm h a] have "h' = h \<or> (\<exists>data. h' = h @ [data])"
    by auto
  then show frame: "take (length h) h' = h"
    by auto
  then have "take (length h) h' ! a = h ! a"
    by simp
  with assms show "h' ! a = h ! a"
    by simp
  from store_view [OF assms, of nm] r
  show view: "handleToolCall_args nm (Some (h ! a)) = Inr (deref_call (c, h'))"
    by simp
  {
    assume "nm \<in> {''volkern_update_lead'', ''volkern_update_cita'', ''volkern_create_task'',
                   ''volkern_create_interaction'', ''volkern_create_note''}"
    from store_fresh [OF this r]
    show "st_body c = Some (length h)" and "length h' = Suc (length h)"
      by simp_all
  }
  {
    assume b: "nm \<noteq> ''volkern_complete_task'' \<and> call_body (deref_call (c, h')) = Some body
             \<and> get_prop (h ! a) k = None"
    with body_keys [OF view] have "body = h ! a \<or> (\<exists>key. body = rest_without key (h ! a))"
      by simp
    with b show "get_prop body k = None"
      by (auto simp: get_prop_rest_without)
  }
next
  assume f: "handleToolCall_store nm h (Some a) = Inl e"
  with store_view [OF assms, of nm] have "handleToolCall_args nm (Some (h ! a)) = Inl e"
    by simp
  then show "nm \<notin> set tool_names
        \<or> (\<exists>k' v. get_prop (h ! a) k' = Some v \<and> toString v = Inl e)"
    using failure_cause by blast
next
  assume none: "get_prop (h ! a) k = None"
  {
    assume "list_leads_params (Some (h ! a)) = Inr ps"
    with params_supplied(1) [OF none] show "k \<notin> fst ` set ps" by blast
  }
  {
    assume "list_citas_params (Some (h ! a)) = Inr ps"
    with params_supplied(2) [OF none] show "k \<notin> fst ` set ps" by blast
  }
  {
    assume "list_servicios_params (Some (h ! a)) = Inr ps"
    with params_supplied(4) [OF none] show "k \<notin> fst ` set ps" by blast
  }
  {
    assume "list_conversaciones_params (Some (h ! a)) = Inr ps"
    with params_supplied(3) [OF none] show "k \<notin> fst ` set ps" by blast
  }
  {
    assume "check_disponibilidad_params (Some (h ! a)) = Inr ps" "k \<noteq> ''fecha''"
    with params_supplied(5) [OF none] show "k \<notin> fst ` set ps" by blast
  }
qed

text \<open>A store of two objects, with the arguments \<open>{leadId: "abc123", nombre: "X"}\<close> of
  \<open>volkern_update_lead\<close> at the address 1: the body is the new object at the address 2.\<close>

theorem arguments_not_mutated_witness:
  "(1::nat) < length [[(''x'', JNull)], [(''leadId'', JString ''abc123''), (''nombre'', JString ''X'')]]
   \<and> handleToolCall_store ''volkern_update_lead''
        [[(''x'', JNull)], [(''leadId'', JString ''abc123''), (''nombre'', JString ''X'')]] (Some 1)
      = Inr (\<lparr>st_endpoint = ''/leads/abc123'', st_method = Some ''PATCH'', st_body = Some 2\<rparr>,
             [[(''x'', JNull)], [(''leadId'', JString ''abc123''), (''nombre'', JString ''X'')],
              [(''nombre'', JString ''X'')]])
   \<and> [[(''x'', JNull)], [(''leadId'', JString ''abc123''), (''nombre'', JString ''X'')],
              [(''nombre'', JString ''X'')]] ! 1
      = [(''leadId'', JString ''abc123''), (''nombre'', JString ''X'')]
   \<and> get_prop [(''leadId'', JString ''abc123''), (''nombre'', JString ''X'')] ''email'' = None
   \<and> get_prop [(''nombre'', JString ''X'')] ''email'' = None"
proof -
  let ?args = "[(''leadId'', JString ''abc123''), (''nombre'', JString ''X'')]"
  let ?h = "[[(''x'', JNull)], ?args]"
  let ?c = "\<lparr>st_endpoint = ''/leads/abc123'', st_method = Some ''PATCH'', st_body = Some 2\<rparr>"
  let ?h' = "[[(''x'', JNull)], ?args, [(''nombre'', JString ''X'')]]"
  have a: "(1::nat) < length ?h"
    by simp
  have run: "handleToolCall_store ''volkern_update_lead'' ?h (Some 1) = Inr (?c, ?h')"
    by (simp add: handleToolCall_store_def alloc_def destructure_def js_String_def get_prop_def
        rest_without_def)
  have none: "get_prop (?h ! 1) ''email'' = None"
    by (simp add: get_prop_def)
  have body: "call_body (deref_call (?c, ?h')) = Some [(''nombre'', JString ''X'')]"
    by (simp add: deref_call_def)
  note inst = arguments_not_mutated [OF a, where nm = "''volkern_update_lead''" and c = ?c
      and h' = ?h' and body = "[(''nombre'', JString ''X'')]" and k = "''email''"
      and e = "Error []" and ps = "[]"]
  from inst run have facts: "take (length ?h) ?h' = ?h \<and> ?h' ! 1 = ?h ! 1
        \<and> handleToolCall_args ''volkern_update_lead'' (Some (?h ! 1)) = Inr (deref_call (?c, ?h'))
        \<and> (''volkern_update_lead'' \<in> {''volkern_update_lead'', ''volkern_update_cita'',
              ''volkern_create_task'', ''volkern_create_interaction'', ''volkern_create_note''} \<longrightarrow>
             st_body ?c = Some (length ?h) \<and> length ?h' = Suc (length ?h))
        \<and> (''volkern_update_lead'' \<noteq> ''volkern_complete_task''
             \<and> call_body (deref_call (?c, ?h')) = Some [(''nombre'', JString ''X'')]
             \<and> get_prop (?h ! 1) ''email'' = None \<longrightarrow>
               get_prop [(''nombre'', JString ''X'')] ''email'' = None)"
    by (elim conjE) (erule impE [where P = "handleToolCall_store _ _ _ = Inr _"], assumption+)
  then have "?h' ! 1 = ?h ! 1"
    by (elim conjE)
  moreover from facts body none have "get_prop [(''nombre'', JString ''X'')] ''email'' = None"
    by simp
  ultimately show ?thesis
    using a run none by simp
qed

end
